theory Spec2Isabelle
  imports Main
begin

unbundle bit_operations_syntax

section \<open>FSFS transactions: errors and basic types\<close>

text \<open>
  An \<^verbatim>\<open>apr_status_t\<close>: success, the statuses for which \<^verbatim>\<open>APR_STATUS_IS_EAGAIN\<close>
  holds, and any other failure with its number.
\<close>

datatype apr_status = APR_SUCCESS | APR_EAGAIN | APR_FAILURE nat

text \<open>
  The error codes of \<^verbatim>\<open>svn_error_t\<close> that \<^verbatim>\<open>transaction.c\<close> creates or tests,
  and one constructor for every other error: \<open>APR_ERROR st\<close> is an error wrapping the APR
  status \<open>st\<close> (\<^verbatim>\<open>svn_error_wrap_apr\<close>), \<open>SVN_ERR_MALFUNC n\<close> another error of the
  malfunction category (a failed \<^verbatim>\<open>SVN_ERR_ASSERT\<close> is \<open>SVN_ERR_ASSERTION_FAIL\<close>,
  of that category too), and \<open>SVN_ERR_OTHER n\<close> any other Subversion error code.  An
  error is modelled by its code: messages and the chain of causes are left out.
\<close>

datatype svn_error =
    SVN_ERR_FS_CORRUPT
  | SVN_ERR_FS_TXN_OUT_OF_DATE
  | SVN_ERR_FS_REP_BEING_WRITTEN
  | SVN_ERR_ASSERTION_FAIL
  | SVN_ERR_MALFUNC nat
  | APR_ERROR apr_status
  | SVN_ERR_OTHER nat

text \<open>\<^verbatim>\<open>svn_error_compose_create\<close>: the first error if there is one, with the second
  chained to it; its code is the first error's.\<close>

definition svn_error_compose_create ::
  "svn_error option \<Rightarrow> svn_error option \<Rightarrow> svn_error option" where
  "svn_error_compose_create err1 err2 = (case err1 of Some e \<Rightarrow> Some e | None \<Rightarrow> err2)"

text \<open>\<^verbatim>\<open>svn_revnum_t\<close> is a C \<^verbatim>\<open>long\<close>; revision numbers stay far from its
  bounds, and are integers here.  \<^verbatim>\<open>SVN_INVALID_REVNUM\<close> is \<open>-1\<close>.\<close>

type_synonym svn_revnum = int

definition SVN_INVALID_REVNUM :: svn_revnum where
  "SVN_INVALID_REVNUM = - 1"

datatype svn_node_kind = svn_node_none | svn_node_file | svn_node_dir | svn_node_unknown

section \<open>Node revision ids, representations and node revisions\<close>

text \<open>
  Modelled from the spec: \<^verbatim>\<open>svn_fs_id_t\<close> and its accessors (\<^verbatim>\<open>id.c\<close>) are not
  among the sources.  The spec makes a node id a triple of a node id, a copy id and an
  origin, which is either a transaction id (a mutable id) or a revision and a byte
  offset in its revision file (an immutable id).  The revision of a mutable id is
  \<open>SVN_INVALID_REVNUM\<close>, its transaction id that of the origin; an immutable id has no
  transaction id.
\<close>

datatype id_origin = Txn_origin string | Rev_origin svn_revnum int

record svn_fs_id =
  node_id :: string
  copy_id :: string
  origin :: id_origin

definition svn_fs_fs__id_is_txn :: "svn_fs_id \<Rightarrow> bool" where
  "svn_fs_fs__id_is_txn i = (case origin i of Txn_origin t \<Rightarrow> True | Rev_origin r off \<Rightarrow> False)"

definition svn_fs_fs__id_rev :: "svn_fs_id \<Rightarrow> svn_revnum" where
  "svn_fs_fs__id_rev i =
     (case origin i of Txn_origin t \<Rightarrow> SVN_INVALID_REVNUM | Rev_origin r off \<Rightarrow> r)"

definition svn_fs_fs__id_txn_id :: "svn_fs_id \<Rightarrow> string option" where
  "svn_fs_fs__id_txn_id i = (case origin i of Txn_origin t \<Rightarrow> Some t | Rev_origin r off \<Rightarrow> None)"

definition svn_fs_fs__id_txn_create :: "string \<Rightarrow> string \<Rightarrow> string \<Rightarrow> svn_fs_id" where
  "svn_fs_fs__id_txn_create n c t = \<lparr>node_id = n, copy_id = c, origin = Txn_origin t\<rparr>"

text \<open>
  \<^verbatim>\<open>representation_t\<close> (declared in \<^verbatim>\<open>fs.h\<close>, outside the sources; the fields are
  those the spec lists).  Offsets and sizes are \<^verbatim>\<open>apr_off_t\<close> and
  \<^verbatim>\<open>svn_filesize_t\<close>, 64-bit signed numbers far from their bounds: integers here.
  A null checksum, transaction id or uniquifier is \<open>None\<close>.
\<close>

record representation =
  md5_checksum :: "string option"
  sha1_checksum :: "string option"
  revision :: svn_revnum
  offset :: int
  size' :: int
  expanded_size :: int
  txn_id :: "string option"
  uniquifier :: "string option"

text \<open>\<^verbatim>\<open>apr_pcalloc\<close> gives a representation with every field zero or null.\<close>

definition rep_pcalloc :: representation where
  "rep_pcalloc = \<lparr>md5_checksum = None, sha1_checksum = None, revision = 0, offset = 0,
     size' = 0, expanded_size = 0, txn_id = None, uniquifier = None\<rparr>"

definition is_txn_rep :: "representation \<Rightarrow> bool" where
  "is_txn_rep rep = (txn_id rep \<noteq> None)"

definition reset_txn_in_rep :: "representation \<Rightarrow> representation" where
  "reset_txn_in_rep rep = rep\<lparr>txn_id := None\<rparr>"

text \<open>
  \<^verbatim>\<open>node_revision_t\<close> (also of \<^verbatim>\<open>fs.h\<close>), with the fields that the functions
  modelled here read or write.  \<^verbatim>\<open>predecessor_count\<close> is a C \<^verbatim>\<open>int\<close>; the model
  is an integer, and covers the counts for which the source's arithmetic does not
  overflow.
\<close>

record node_revision =
  kind :: svn_node_kind
  noderev_id :: svn_fs_id
  predecessor_id :: "svn_fs_id option"
  predecessor_count :: int
  prop_rep :: "representation option"
  data_rep :: "representation option"
  is_fresh_txn_root :: bool

section \<open>Choosing the delta base\<close>

text \<open>
  What \<^verbatim>\<open>choose_delta_base\<close> reads of the filesystem: the two tunables of
  \<^verbatim>\<open>fs_fs_data_t\<close> as the source's casts to \<^verbatim>\<open>int\<close> give them, and the two
  functions outside the sources that read the repository,
  \<^verbatim>\<open>svn_fs_fs__get_node_revision\<close> (called with the predecessor id, null or not) and
  \<^verbatim>\<open>svn_fs_fs__rep_chain_length\<close>.
\<close>

record delta_fs =
  max_linear_deltification :: int
  max_deltification_walk :: int
  get_node_revision :: "svn_fs_id option \<Rightarrow> svn_error + node_revision"
  rep_chain_length :: "representation \<Rightarrow> svn_error + int"

text \<open>The representation that the caller asked for: \<^verbatim>\<open>props ? base->prop_rep :
  base->data_rep\<close>.\<close>

definition base_rep :: "bool \<Rightarrow> node_revision \<Rightarrow> representation option" where
  "base_rep props base = (if props then prop_rep base else data_rep base)"

text \<open>The test in the loop that sets \<^verbatim>\<open>maybe_shared_rep\<close> for the node revision
  just read.\<close>

definition shared_rep_seen :: "bool \<Rightarrow> node_revision \<Rightarrow> bool" where
  "shared_rep_seen props base =
     (if props
      then (case prop_rep base of
              None \<Rightarrow> False
            | Some r \<Rightarrow> svn_fs_fs__id_rev (noderev_id base) > revision r)
      else (case data_rep base of
              None \<Rightarrow> False
            | Some r \<Rightarrow> svn_fs_fs__id_rev (noderev_id base) > revision r))"

text \<open>
  The loop \<^verbatim>\<open>while ((count++) < noderev->predecessor_count)\<close>, with the variables
  it changes: \<^verbatim>\<open>count\<close>, \<^verbatim>\<open>base\<close> and \<^verbatim>\<open>maybe_shared_rep\<close>.  A failing read
  of a predecessor ends it with the error.
\<close>

function walk_predecessors ::
  "delta_fs \<Rightarrow> bool \<Rightarrow> int \<Rightarrow> int \<Rightarrow> node_revision \<Rightarrow> bool
     \<Rightarrow> svn_error + (node_revision \<times> bool)" where
  "walk_predecessors fs props pred_count count base maybe_shared_rep =
     (if count < pred_count
      then (case get_node_revision fs (predecessor_id base) of
              Inl err \<Rightarrow> Inl err
            | Inr base' \<Rightarrow>
                walk_predecessors fs props pred_count (count + 1) base'
                  (if shared_rep_seen props base' then True else maybe_shared_rep))
      else Inr (base, maybe_shared_rep))"
  by pat_completeness auto
termination
  by (relation "measure (\<lambda>(fs, props, pred_count, count, base, shared). nat (pred_count - count))")
    auto

declare walk_predecessors.simps [simp del]

text \<open>\<^verbatim>\<open>choose_delta_base\<close>: \<open>Inr None\<close> is the null \<^verbatim>\<open>*rep\<close>, no base.\<close>

definition choose_delta_base ::
  "delta_fs \<Rightarrow> node_revision \<Rightarrow> bool \<Rightarrow> svn_error + representation option" where
  "choose_delta_base fs noderev props =
     (if predecessor_count noderev = 0 then Inr None
      else
        let count0 = predecessor_count noderev AND (predecessor_count noderev - 1);
            walk = predecessor_count noderev - count0;
            count = (if walk < max_linear_deltification fs
                     then predecessor_count noderev - 1 else count0)
        in if walk > max_deltification_walk fs then Inr None
           else
             (case walk_predecessors fs props (predecessor_count noderev) count noderev False of
                Inl err \<Rightarrow> Inl err
              | Inr (base, maybe_shared_rep) \<Rightarrow>
                  (case base_rep props base of
                     None \<Rightarrow> Inr None
                   | Some rep \<Rightarrow>
                       if maybe_shared_rep
                       then (case rep_chain_length fs rep of
                               Inl err \<Rightarrow> Inl err
                             | Inr chain_length \<Rightarrow>
                                 if chain_length \<ge> 2 * max_linear_deltification fs + 2
                                 then Inr None else Inr (Some rep))
                       else Inr (Some rep))))"

text \<open>
  The spec's words for the walk: starting at a node revision, follow
  \<^verbatim>\<open>predecessor_id\<close> backwards a number of steps.  \<open>predecessor_walk\<close> lists
  the node revisions read on the way, the last one being the node reached.
\<close>

fun predecessor_walk :: "delta_fs \<Rightarrow> nat \<Rightarrow> node_revision \<Rightarrow> svn_error + node_revision list" where
  "predecessor_walk fs 0 base = Inr []"
| "predecessor_walk fs (Suc n) base =
     (case get_node_revision fs (predecessor_id base) of
        Inl err \<Rightarrow> Inl err
      | Inr base' \<Rightarrow>
          (case predecessor_walk fs n base' of
             Inl err \<Rightarrow> Inl err
           | Inr rest \<Rightarrow> Inr (base' # rest)))"


section \<open>The transaction registry and the proto-rev lock\<close>

text \<open>
  \<^verbatim>\<open>fs_fs_shared_txn_data_t\<close> and the part of \<^verbatim>\<open>fs_fs_shared_data_t\<close> that holds the
  list of transactions and the one-object free list.  The list \<^verbatim>\<open>txns\<close> is linked
  through \<^verbatim>\<open>next\<close>; a pointer to one of its objects is the object's position in the
  list.  Pools are left out.  The source asserts that a transaction id fits the
  object's buffer: longer ids are outside the model.
\<close>

record fs_fs_shared_txn_data =
  shared_txn_id :: string
  being_written :: bool

record fs_fs_shared_data =
  txns :: "fs_fs_shared_txn_data list"
  free_txn :: "fs_fs_shared_txn_data option"

text \<open>The search loop of \<^verbatim>\<open>get_shared_txn\<close> and \<^verbatim>\<open>free_shared_txn\<close>: the first
  object with the id.\<close>

fun find_shared_txn :: "fs_fs_shared_txn_data list \<Rightarrow> string \<Rightarrow> nat option" where
  "find_shared_txn [] tid = None"
| "find_shared_txn (t # ts) tid =
     (if shared_txn_id t = tid then Some 0
      else (case find_shared_txn ts tid of None \<Rightarrow> None | Some i \<Rightarrow> Some (Suc i)))"

text \<open>\<^verbatim>\<open>get_shared_txn\<close>.  A new object, from the free list or freshly allocated, gets
  the id, a clear \<^verbatim>\<open>being_written\<close> flag, and the head of the list; either way the
  free list is empty afterwards.\<close>

definition get_shared_txn ::
  "fs_fs_shared_data \<Rightarrow> string \<Rightarrow> bool \<Rightarrow> nat option \<times> fs_fs_shared_data" where
  "get_shared_txn ffsd tid create_new =
     (case find_shared_txn (txns ffsd) tid of
        Some i \<Rightarrow> (Some i, ffsd)
      | None \<Rightarrow>
          if \<not> create_new then (None, ffsd)
          else (Some 0,
                \<lparr>txns = \<lparr>shared_txn_id = tid, being_written = False\<rparr> # txns ffsd,
                 free_txn = None\<rparr>))"

text \<open>\<^verbatim>\<open>free_shared_txn\<close>: the object leaves the list and goes to the free list if
  that is empty.\<close>

definition free_shared_txn :: "fs_fs_shared_data \<Rightarrow> string \<Rightarrow> fs_fs_shared_data" where
  "free_shared_txn ffsd tid =
     (case find_shared_txn (txns ffsd) tid of
        None \<Rightarrow> ffsd
      | Some i \<Rightarrow>
          \<lparr>txns = take i (txns ffsd) @ drop (Suc i) (txns ffsd),
           free_txn = (case free_txn ffsd of
                         None \<Rightarrow> Some (txns ffsd ! i)
                       | Some t \<Rightarrow> Some t)\<rparr>)"

text \<open>The flag of the registry for a transaction: set when the transaction has an
  object in the list whose \<^verbatim>\<open>being_written\<close> is true.\<close>

definition txn_being_written :: "fs_fs_shared_data \<Rightarrow> string \<Rightarrow> bool" where
  "txn_being_written ffsd tid =
     (case find_shared_txn (txns ffsd) tid of
        None \<Rightarrow> False
      | Some i \<Rightarrow> being_written (txns ffsd ! i))"

definition set_being_written :: "fs_fs_shared_data \<Rightarrow> nat \<Rightarrow> bool \<Rightarrow> fs_fs_shared_data" where
  "set_being_written ffsd i b =
     ffsd\<lparr>txns := (txns ffsd)[i := (txns ffsd ! i)\<lparr>being_written := b\<rparr>]\<rparr>"

text \<open>
  Modelled from the spec: the file functions of APR and \<^verbatim>\<open>libsvn_subr\<close> and
  \<^verbatim>\<open>svn_fs_fs__get_file_offset\<close> are not among the sources.  An open file is its
  bytes and the position of the handle.  A write puts the bytes at the position and
  moves it past them; a seek to the end puts the position at the size; truncation
  back to an offset cuts the file there (a longer length pads it with zero bytes) and
  puts the position at the offset; the file offset is the position (the spec's
  \<^verbatim>\<open>tell\<close>).
\<close>

record apr_file =
  contents :: string
  filepos :: nat

definition file_write :: "apr_file \<Rightarrow> string \<Rightarrow> apr_file" where
  "file_write f bytes =
     \<lparr>contents = take (filepos f) (contents f) @ bytes
                   @ drop (filepos f + length bytes) (contents f),
      filepos = filepos f + length bytes\<rparr>"

definition file_seek_end :: "apr_file \<Rightarrow> apr_file" where
  "file_seek_end f = f\<lparr>filepos := length (contents f)\<rparr>"

definition svn_io_file_trunc :: "apr_file \<Rightarrow> int \<Rightarrow> apr_file" where
  "svn_io_file_trunc f off =
     \<lparr>contents = take (nat off) (contents f)
                   @ replicate (nat off - length (contents f)) (CHR 0x00),
      filepos = nat off\<rparr>"

definition svn_fs_fs__get_file_offset :: "apr_file \<Rightarrow> int" where
  "svn_fs_fs__get_file_offset f = int (filepos f)"

text \<open>
  What the operating system answers to \<^verbatim>\<open>get_writable_proto_rev_body\<close> and
  \<^verbatim>\<open>unlock_proto_rev_body\<close>: the outcome of opening the lock file
  (\<^verbatim>\<open>APR_WRITE | APR_CREATE\<close>), of the exclusive non-blocking
  \<^verbatim>\<open>apr_file_lock\<close> (\<open>APR_EAGAIN\<close> when another process holds the lock), of opening
  the proto-rev file and seeking to its end, of unlocking and closing the lock file,
  and the bytes of the proto-rev file.  \<open>None\<close> is \<^verbatim>\<open>SVN_NO_ERROR\<close>.
\<close>

record proto_rev_os =
  lockfile_open :: "svn_error option"
  lockfile_lock :: apr_status
  proto_rev_open :: "svn_error option"
  proto_rev_seek :: "svn_error option"
  lockfile_unlock :: apr_status
  lockfile_close :: apr_status
  proto_rev_bytes :: string

text \<open>\<^verbatim>\<open>unlock_proto_rev_body\<close>, for the transaction list already locked.\<close>

definition unlock_proto_rev_body ::
  "proto_rev_os \<Rightarrow> fs_fs_shared_data \<Rightarrow> string \<Rightarrow> svn_error option \<times> fs_fs_shared_data" where
  "unlock_proto_rev_body os ffsd tid =
     (case get_shared_txn ffsd tid False of
        (None, ffsd1) \<Rightarrow> (Some SVN_ERR_FS_CORRUPT, ffsd1)
      | (Some i, ffsd1) \<Rightarrow>
          if \<not> being_written (txns ffsd1 ! i) then (Some SVN_ERR_FS_CORRUPT, ffsd1)
          else if lockfile_unlock os \<noteq> APR_SUCCESS
          then (Some (APR_ERROR (lockfile_unlock os)), ffsd1)
          else if lockfile_close os \<noteq> APR_SUCCESS
          then (Some (APR_ERROR (lockfile_close os)), ffsd1)
          else (None, set_being_written ffsd1 i False))"

text \<open>
  \<^verbatim>\<open>get_writable_proto_rev_body\<close>.  The result is the error, or the file handle and
  the lock cookie (the lock file of the transaction, null after a failure that the
  function cleaned up), with the registry as the function leaves it.  With
  \<^verbatim>\<open>create_new\<close> true \<^verbatim>\<open>get_shared_txn\<close> never returns null: the first case is
  there for totality only.
\<close>

definition get_writable_proto_rev_body ::
  "proto_rev_os \<Rightarrow> fs_fs_shared_data \<Rightarrow> string
     \<Rightarrow> (svn_error + apr_file \<times> string option) \<times> fs_fs_shared_data" where
  "get_writable_proto_rev_body os ffsd tid =
     (case get_shared_txn ffsd tid True of
        (None, ffsd1) \<Rightarrow> (Inl SVN_ERR_FS_CORRUPT, ffsd1)
      | (Some i, ffsd1) \<Rightarrow>
          if being_written (txns ffsd1 ! i)
          then (Inl SVN_ERR_FS_REP_BEING_WRITTEN, ffsd1)
          else
            (case lockfile_open os of
               Some err \<Rightarrow> (Inl err, ffsd1)
             | None \<Rightarrow>
                 if lockfile_lock os \<noteq> APR_SUCCESS
                 then
                   (if lockfile_lock os = APR_EAGAIN
                    then (Inl SVN_ERR_FS_REP_BEING_WRITTEN, ffsd1)
                    else (Inl (APR_ERROR (lockfile_lock os)), ffsd1))
                 else
                   let ffsd2 = set_being_written ffsd1 i True;
                       opened = \<lparr>contents = proto_rev_bytes os, filepos = 0\<rparr>;
                       err = (case proto_rev_open os of
                                Some e \<Rightarrow> Some e
                              | None \<Rightarrow> proto_rev_seek os)
                   in (case err of
                         None \<Rightarrow> (Inr (file_seek_end opened, Some tid), ffsd2)
                       | Some e \<Rightarrow>
                           (case unlock_proto_rev_body os ffsd2 tid of
                              (unlock_err, ffsd3) \<Rightarrow>
                                (case svn_error_compose_create (Some e) unlock_err of
                                   Some e' \<Rightarrow> (Inl e', ffsd3)
                                 | None \<Rightarrow> (Inr (opened, None), ffsd3))))))"


section \<open>Writing representations\<close>

text \<open>
  What \<^verbatim>\<open>get_shared_rep\<close> reads of the filesystem, through functions outside the
  sources: the flag \<^verbatim>\<open>rep_sharing_allowed\<close>, the rep-cache
  (\<^verbatim>\<open>svn_fs_fs__get_rep_reference\<close>, by SHA-1 checksum), the check of a cached
  representation against the disk (\<^verbatim>\<open>svn_fs_fs__check_rep\<close>), the name of the
  sha1 mapping file of a transaction (\<^verbatim>\<open>path_txn_sha1\<close>, which joins names),
  \<^verbatim>\<open>svn_io_check_path\<close>, \<^verbatim>\<open>svn_stringbuf_from_file2\<close> and
  \<^verbatim>\<open>svn_fs_fs__parse_representation\<close>.  The warning callback has no effect on the
  result and is left out.
\<close>

record rep_sharing_fs =
  rep_sharing_allowed :: bool
  get_rep_reference :: "string option \<Rightarrow> svn_error + representation option"
  check_rep :: "representation \<Rightarrow> svn_error option"
  path_txn_sha1 :: "string option \<Rightarrow> string option \<Rightarrow> string"
  check_path :: "string \<Rightarrow> svn_error + svn_node_kind"
  stringbuf_from_file2 :: "string \<Rightarrow> svn_error + string"
  parse_representation :: "string \<Rightarrow> svn_error + representation option"

text \<open>\<^verbatim>\<open>SVN_ERROR_IN_CATEGORY(err->apr_err, SVN_ERR_MALFUNC_CATEGORY_START)\<close>.\<close>

definition in_malfunc_category :: "svn_error \<Rightarrow> bool" where
  "in_malfunc_category err =
     (case err of
        SVN_ERR_ASSERTION_FAIL \<Rightarrow> True
      | SVN_ERR_MALFUNC n \<Rightarrow> True
      | _ \<Rightarrow> False)"

text \<open>
  \<^verbatim>\<open>get_shared_rep\<close>; \<^verbatim>\<open>reps_hash\<close> is \<open>None\<close> when the caller passes null.
  Both callers set the SHA-1 checksum of \<^verbatim>\<open>rep\<close> before the call; the lookup in
  \<^verbatim>\<open>reps_hash\<close> reads its digest.
\<close>

definition get_shared_rep ::
  "rep_sharing_fs \<Rightarrow> representation \<Rightarrow> (string \<rightharpoonup> representation) option
     \<Rightarrow> svn_error + representation option" where
  "get_shared_rep fs rep reps_hash =
     (if \<not> rep_sharing_allowed fs then Inr None
      else
        let old_rep0 =
              (case reps_hash of
                 None \<Rightarrow> None
               | Some h \<Rightarrow> (case sha1_checksum rep of None \<Rightarrow> None | Some d \<Rightarrow> h d))
        in
        (case (case old_rep0 of
                 Some r \<Rightarrow> Inr (Some r)
               | None \<Rightarrow>
                   (case get_rep_reference fs (sha1_checksum rep) of
                      Inr None \<Rightarrow> Inr None
                    | Inr (Some r) \<Rightarrow>
                        (case check_rep fs r of
                           Some err \<Rightarrow> Inl err
                         | None \<Rightarrow> Inr (Some r))
                    | Inl err \<Rightarrow>
                        if err = SVN_ERR_FS_CORRUPT \<or> in_malfunc_category err
                        then Inl err else Inr None))
         of
           Inl err \<Rightarrow> Inl err
         | Inr old_rep1 \<Rightarrow>
             (case (if old_rep1 = None \<and> is_txn_rep rep
                    then
                      (let file_name = path_txn_sha1 fs (txn_id rep) (sha1_checksum rep) in
                       case check_path fs file_name of
                         Inl err \<Rightarrow> Inl err
                       | Inr k \<Rightarrow>
                           if k = svn_node_file
                           then (case stringbuf_from_file2 fs file_name of
                                   Inl err \<Rightarrow> Inl err
                                 | Inr rep_string \<Rightarrow> parse_representation fs rep_string)
                           else Inr None)
                    else Inr old_rep1)
              of
                Inl err \<Rightarrow> Inl err
              | Inr None \<Rightarrow> Inr None
              | Inr (Some r) \<Rightarrow>
                  Inr (Some (r\<lparr>md5_checksum := md5_checksum rep,
                              uniquifier := uniquifier rep\<rparr>)))))"

text \<open>
  \<^verbatim>\<open>struct rep_write_baton\<close>.  The file and the stream \<^verbatim>\<open>rep_stream\<close> onto it are
  the one field \<open>file'\<close>; the delta stream is the svndiff bytes that the encoder still
  holds and writes to \<^verbatim>\<open>rep_stream\<close> when it is closed; a checksum context is the
  data it was fed.
\<close>

record rep_write_baton =
  delta_stream :: "string option"
  rep_offset :: int
  delta_start :: int
  rep_size :: int
  noderev :: node_revision
  file' :: apr_file
  lockcookie :: "string option"
  md5_checksum_ctx :: string
  sha1_checksum_ctx :: string

text \<open>
  The outcomes of the calls that \<^verbatim>\<open>rep_write_contents_close\<close>,
  \<^verbatim>\<open>write_hash_rep\<close> and \<^verbatim>\<open>svn_fs_fs__put_node_revision\<close> make outside the
  model, each \<open>None\<close> for success or the error: closing the delta stream, reading the
  file position, \<^verbatim>\<open>get_new_txn_node_id\<close> (which also yields the new id), truncating,
  writing the header, the serialised hash and the trailer, writing the node revision
  file, \<^verbatim>\<open>store_sha1_rep_mapping\<close>, closing the file and \<^verbatim>\<open>unlock_proto_rev\<close>;
  and the two digest functions.  A call that fails leaves the file as it was.
\<close>

record rep_io =
  delta_stream_close :: "svn_error option"
  get_file_offset_err :: "svn_error option"
  get_new_txn_node_id :: "svn_error + string"
  file_trunc_err :: "svn_error option"
  header_puts_err :: "svn_error option"
  hash_write_err :: "svn_error option"
  endrep_puts_err :: "svn_error option"
  noderev_write_err :: "svn_error option"
  store_sha1_rep_mapping :: "svn_error option"
  file_close_err :: "svn_error option"
  unlock_proto_rev :: "svn_error option"
  md5_digest :: "string \<Rightarrow> string"
  sha1_digest :: "string \<Rightarrow> string"

text \<open>\<^verbatim>\<open>svn_fs_fs__put_node_revision\<close>: the node revision as it leaves the function,
  and the error if any.\<close>

definition svn_fs_fs__put_node_revision ::
  "rep_io \<Rightarrow> svn_fs_id \<Rightarrow> node_revision \<Rightarrow> bool \<Rightarrow> svn_error option \<times> node_revision" where
  "svn_fs_fs__put_node_revision io i nr fresh_txn_root =
     (let nr1 = nr\<lparr>is_fresh_txn_root := fresh_txn_root\<rparr> in
      if \<not> svn_fs_fs__id_is_txn i then (Some SVN_ERR_FS_CORRUPT, nr1)
      else (noderev_write_err io, nr1))"

text \<open>\<^verbatim>\<open>apr_psprintf\<close> with \<^verbatim>\<open>%s\<close> prints a null string as \<^verbatim>\<open>(null)\<close>.\<close>

definition printf_s :: "string option \<Rightarrow> string" where
  "printf_s str = (case str of None \<Rightarrow> ''(null)'' | Some t \<Rightarrow> t)"

text \<open>
  The first steps of \<^verbatim>\<open>rep_write_contents_close\<close>.  Closing the delta stream
  writes the last bits of svndiff to the file.  Then the function fills in the new
  representation: its offset is \<^verbatim>\<open>rep_offset\<close>, its size the distance from
  \<^verbatim>\<open>delta_start\<close> to the end of the data, its expanded size the number of bytes
  written to the stream, and it belongs to the transaction of the node revision.
\<close>

definition close_delta_stream :: "rep_write_baton \<Rightarrow> rep_write_baton" where
  "close_delta_stream b =
     (case delta_stream b of
        None \<Rightarrow> b
      | Some pending \<Rightarrow> b\<lparr>delta_stream := Some [], file' := file_write (file' b) pending\<rparr>)"

definition written_rep :: "rep_io \<Rightarrow> rep_write_baton \<Rightarrow> string \<Rightarrow> representation" where
  "written_rep io b1 unique_suffix =
     (let rep1 = rep_pcalloc
            \<lparr>offset := rep_offset b1,
             size' := svn_fs_fs__get_file_offset (file' b1) - delta_start b1,
             expanded_size := rep_size b1,
             txn_id := svn_fs_fs__id_txn_id (noderev_id (noderev b1))\<rparr>
      in rep1\<lparr>uniquifier := Some (printf_s (txn_id rep1) @ ''/'' @ unique_suffix),
              revision := SVN_INVALID_REVNUM,
              md5_checksum := Some (md5_digest io (md5_checksum_ctx b1)),
              sha1_checksum := Some (sha1_digest io (sha1_checksum_ctx b1))\<rparr>)"

text \<open>
  \<^verbatim>\<open>rep_write_contents_close\<close>: the error if any, and the baton, with its file and
  its node revision, as the function leaves them.
\<close>

definition rep_write_contents_close ::
  "rep_sharing_fs \<Rightarrow> rep_io \<Rightarrow> rep_write_baton \<Rightarrow> svn_error option \<times> rep_write_baton" where
  "rep_write_contents_close fs io b =
     (case (if delta_stream b \<noteq> None then delta_stream_close io else None) of
        Some err \<Rightarrow> (Some err, b)
      | None \<Rightarrow>
      let b1 = close_delta_stream b in
      (case get_file_offset_err io of
         Some err \<Rightarrow> (Some err, b1)
       | None \<Rightarrow>
      (case get_new_txn_node_id io of
         Inl err \<Rightarrow> (Some err, b1)
       | Inr unique_suffix \<Rightarrow>
      let rep = written_rep io b1 unique_suffix in
      (case get_shared_rep fs rep None of
         Inl err \<Rightarrow> (Some err, b1)
       | Inr old_rep \<Rightarrow>
      (case (case old_rep of
               Some old \<Rightarrow>
                 (case file_trunc_err io of
                    Some err \<Rightarrow> Inl err
                  | None \<Rightarrow>
                      Inr (b1\<lparr>file' := svn_io_file_trunc (file' b1) (rep_offset b1),
                              noderev := (noderev b1)\<lparr>data_rep := Some old\<rparr>\<rparr>))
             | None \<Rightarrow>
                 (case endrep_puts_err io of
                    Some err \<Rightarrow> Inl err
                  | None \<Rightarrow>
                      Inr (b1\<lparr>file' := file_write (file' b1) ''ENDREP\<newline>'',
                              noderev := (noderev b1)\<lparr>data_rep := Some rep\<rparr>\<rparr>)))
       of
         Inl err \<Rightarrow> (Some err, b1)
       | Inr b2 \<Rightarrow>
      (case svn_fs_fs__put_node_revision io (noderev_id (noderev b2)) (noderev b2) False of
         (put_err, nr) \<Rightarrow>
      let b3 = b2\<lparr>noderev := nr\<rparr> in
      (case put_err of
         Some err \<Rightarrow> (Some err, b3)
       | None \<Rightarrow>
      (case (if old_rep = None then store_sha1_rep_mapping io else None) of
         Some err \<Rightarrow> (Some err, b3)
       | None \<Rightarrow>
      (case file_close_err io of
         Some err \<Rightarrow> (Some err, b3)
       | None \<Rightarrow> (unlock_proto_rev io, b3))))))))))"

text \<open>\<^verbatim>\<open>struct write_hash_baton\<close>, the stream being the file it writes to.\<close>

record write_hash_baton =
  stream :: apr_file
  whb_size :: int
  md5_ctx :: string
  sha1_ctx :: string

text \<open>\<^verbatim>\<open>write_hash_handler\<close>, for one piece of data.\<close>

definition write_hash_handler :: "write_hash_baton \<Rightarrow> string \<Rightarrow> write_hash_baton" where
  "write_hash_handler whb data =
     \<lparr>stream = file_write (stream whb) data,
      whb_size = whb_size whb + int (length data),
      md5_ctx = md5_ctx whb @ data,
      sha1_ctx = sha1_ctx whb @ data\<rparr>"

text \<open>
  \<^verbatim>\<open>write_hash_rep\<close>.  The hash is given by the pieces that \<^verbatim>\<open>svn_hash_write2\<close>
  (outside the sources) writes for it, in order, each through the handler.  The
  result is the error if any, and the representation and the file as the function
  leaves them.
\<close>

definition write_hash_rep ::
  "rep_sharing_fs \<Rightarrow> rep_io \<Rightarrow> representation \<Rightarrow> apr_file \<Rightarrow> string list
     \<Rightarrow> (string \<rightharpoonup> representation) option
     \<Rightarrow> svn_error option \<times> representation \<times> apr_file" where
  "write_hash_rep fs io rep f hash reps_hash =
     (case get_file_offset_err io of
        Some err \<Rightarrow> (Some err, rep, f)
      | None \<Rightarrow>
      let rep1 = rep\<lparr>offset := svn_fs_fs__get_file_offset f\<rparr>;
          whb = \<lparr>stream = f, whb_size = 0, md5_ctx = [], sha1_ctx = []\<rparr>
      in
      (case header_puts_err io of
         Some err \<Rightarrow> (Some err, rep1, f)
       | None \<Rightarrow>
      let whb1 = whb\<lparr>stream := file_write (stream whb) ''PLAIN\<newline>''\<rparr> in
      (case hash_write_err io of
         Some err \<Rightarrow> (Some err, rep1, stream whb1)
       | None \<Rightarrow>
      let whb2 = foldl write_hash_handler whb1 hash;
          rep2 = rep1\<lparr>md5_checksum := Some (md5_digest io (md5_ctx whb2)),
                      sha1_checksum := Some (sha1_digest io (sha1_ctx whb2))\<rparr>
      in
      (case get_shared_rep fs rep2 reps_hash of
         Inl err \<Rightarrow> (Some err, rep2, stream whb2)
       | Inr (Some old_rep) \<Rightarrow>
           (case file_trunc_err io of
              Some err \<Rightarrow> (Some err, rep2, stream whb2)
            | None \<Rightarrow> (None, old_rep, svn_io_file_trunc (stream whb2) (offset rep2)))
       | Inr None \<Rightarrow>
           (case endrep_puts_err io of
              Some err \<Rightarrow> (Some err, rep2, stream whb2)
            | None \<Rightarrow>
                (None,
                 rep2\<lparr>size' := whb_size whb2, expanded_size := 0\<rparr>,
                 file_write (stream whb2) ''ENDREP\<newline>''))))))"


section \<open>Committing a transaction\<close>

text \<open>
  A function that returns \<^verbatim>\<open>svn_error_t *\<close> and works on the repository: from the
  state before to the error or the result, and the state after.  The state is kept
  when the function fails, as what a C function did before it returned an error
  stays done.  \<open>SVN_ERR m f\<close> is the macro \<^verbatim>\<open>SVN_ERR\<close> around a call \<open>m\<close> followed
  by the rest \<open>f\<close> of the function.
\<close>

type_synonym ('s, 'a) svn = "'s \<Rightarrow> (svn_error + 'a) \<times> 's"

definition svn_return :: "'a \<Rightarrow> ('s, 'a) svn" where
  "svn_return a s = (Inr a, s)"

definition svn_fail :: "svn_error \<Rightarrow> ('s, 'a) svn" where
  "svn_fail err s = (Inl err, s)"

definition SVN_ERR :: "('s, 'a) svn \<Rightarrow> ('a \<Rightarrow> ('s, 'b) svn) \<Rightarrow> ('s, 'b) svn" where
  "SVN_ERR m f s = (case m s of (Inl err, s') \<Rightarrow> (Inl err, s') | (Inr a, s') \<Rightarrow> f a s')"

text \<open>The files that \<^verbatim>\<open>commit_body\<close> names, by the path function that builds the
  name.\<close>

datatype fs_path =
    path_rev_absolute svn_revnum
  | path_rev svn_revnum
  | path_rev_shard svn_revnum
  | path_revprops svn_revnum
  | path_revprops_shard svn_revnum
  | path_txn_proto_rev string
  | path_txn_props string
  | path_revs_dir
  | path_revprops_dir

text \<open>
  The repository as \<^verbatim>\<open>commit_body\<close> sees it: the revision and the next ids that
  the file \<^verbatim>\<open>current\<close> holds, the cache \<^verbatim>\<open>youngest_rev_cache\<close> of
  \<^verbatim>\<open>fs_fs_data_t\<close>, the caller's variable \<^verbatim>\<open>*new_rev_p\<close>, and everything else
  (the other files, the registry of transactions, the caches), of a type \<open>'d\<close>.
\<close>

record 'd fs_state =
  current_rev :: svn_revnum
  current_ids :: "string option \<times> string option"
  youngest_rev_cache :: svn_revnum
  new_rev_p :: svn_revnum
  disk :: 'd

text \<open>
  The functions that \<^verbatim>\<open>commit_body\<close>, \<^verbatim>\<open>write_final_rev\<close>,
  \<^verbatim>\<open>validate_root_noderev\<close> and \<^verbatim>\<open>write_final_current\<close> call, as operations on
  the rest \<open>'d\<close> of the repository, under the names of the source; and two settings
  of \<^verbatim>\<open>fs_fs_data_t\<close>: \<open>global_ids_format\<close> is
  \<^verbatim>\<open>ffd->format < SVN_FS_FS__MIN_NO_GLOBAL_IDS_FORMAT\<close>; and the names of three
  properties, macros of headers outside the sources.  Most functions are outside the
  sources.  Those of \<^verbatim>\<open>transaction.c\<close> are operations here too when they work on
  the transaction's files only: \<^verbatim>\<open>verify_locks\<close>, \<^verbatim>\<open>get_next_revision_ids\<close>,
  \<^verbatim>\<open>get_writable_proto_rev\<close>, \<^verbatim>\<open>write_final_changed_path_info\<close>,
  \<^verbatim>\<open>svn_fs_fs__txn_proplist\<close>, \<^verbatim>\<open>svn_fs_fs__change_txn_props\<close>,
  \<^verbatim>\<open>svn_fs_fs__change_txn_prop\<close>, \<^verbatim>\<open>unlock_proto_rev\<close>,
  \<^verbatim>\<open>verify_as_revision_before_current_plus_plus\<close>, \<^verbatim>\<open>read_next_ids\<close> and
  \<^verbatim>\<open>svn_fs_fs__purge_txn\<close>; none of them writes \<^verbatim>\<open>current\<close>.
  \<open>finalize_noderev\<close> is the part of \<^verbatim>\<open>write_final_rev\<close> between reading
  the node revision and validating it (it writes the children and the
  representations to the proto-rev file and gives the node revision its final id),
  with the arguments of \<^verbatim>\<open>write_final_rev\<close> that it uses.  \<open>current_read_err\<close> and \<open>current_write\<close> are the reading and the atomic
  writing of the file \<^verbatim>\<open>current\<close>, as far as they can fail.  A file handle is the
  name of the file, the root of a revision is the revision, a property list is a list
  of names and values.
\<close>

record 'd commit_env =
  global_ids_format :: bool
  max_files_per_dir :: int
  SVN_FS__PROP_TXN_CHECK_OOD :: string
  SVN_FS__PROP_TXN_CHECK_LOCKS :: string
  SVN_PROP_REVISION_DATE :: string
  current_read_err :: "'d \<Rightarrow> svn_error option"
  current_write :: "('d, unit) svn"
  verify_locks :: "string \<Rightarrow> ('d, unit) svn"
  get_next_revision_ids :: "('d, string \<times> string) svn"
  get_writable_proto_rev :: "string \<Rightarrow> ('d, fs_path \<times> string option) svn"
  svn_fs_fs__get_file_offset_of :: "fs_path \<Rightarrow> ('d, int) svn"
  svn_fs_fs__get_node_revision :: "svn_fs_id \<Rightarrow> ('d, node_revision) svn"
  finalize_noderev ::
    "fs_path \<Rightarrow> svn_revnum \<Rightarrow> string option \<Rightarrow> string option \<Rightarrow> int \<Rightarrow> bool
       \<Rightarrow> node_revision \<Rightarrow> ('d, node_revision) svn"
  svn_fs_fs__revision_root :: "svn_revnum \<Rightarrow> ('d, svn_revnum) svn"
  svn_fs_fs__node_id :: "svn_revnum \<Rightarrow> string \<Rightarrow> ('d, svn_fs_id) svn"
  svn_fs_fs__write_noderev :: "fs_path \<Rightarrow> node_revision \<Rightarrow> ('d, unit) svn"
  write_final_changed_path_info :: "fs_path \<Rightarrow> string \<Rightarrow> ('d, int) svn"
  unparse_revision_trailer :: "svn_fs_id option \<Rightarrow> int \<Rightarrow> string"
  svn_io_file_write_full :: "fs_path \<Rightarrow> string \<Rightarrow> ('d, unit) svn"
  svn_io_file_flush_to_disk :: "fs_path \<Rightarrow> ('d, unit) svn"
  svn_io_file_close :: "fs_path \<Rightarrow> ('d, unit) svn"
  svn_fs_fs__txn_proplist :: "string \<Rightarrow> ('d, (string \<times> string) list) svn"
  svn_fs_fs__change_txn_props :: "string \<Rightarrow> (string \<times> string option) list \<Rightarrow> ('d, unit) svn"
  svn_io_dir_make :: "fs_path \<Rightarrow> ('d, unit) svn"
  APR_STATUS_IS_EEXIST :: "svn_error \<Rightarrow> bool"
  svn_io_copy_perms :: "fs_path \<Rightarrow> fs_path \<Rightarrow> ('d, unit) svn"
  svn_fs_fs__is_packed_revprop :: "svn_revnum \<Rightarrow> 'd \<Rightarrow> bool"
  svn_fs_fs__move_into_place :: "fs_path \<Rightarrow> fs_path \<Rightarrow> fs_path \<Rightarrow> ('d, unit) svn"
  unlock_proto_rev_of :: "string \<Rightarrow> string option \<Rightarrow> ('d, unit) svn"
  time_now_cstring :: "'d \<Rightarrow> string"
  svn_fs_fs__change_txn_prop :: "string \<Rightarrow> string \<Rightarrow> string \<Rightarrow> ('d, unit) svn"
  verify_as_revision_before_current_plus_plus :: "svn_revnum \<Rightarrow> ('d, unit) svn"
  read_next_ids :: "string \<Rightarrow> ('d, string \<times> string) svn"
  svn_fs_fs__add_keys :: "string option \<Rightarrow> string \<Rightarrow> string"
  svn_fs_fs__purge_txn :: "string \<Rightarrow> ('d, unit) svn"

text \<open>An operation on the rest of the repository, run in the whole state.\<close>

definition on_disk :: "('d, 'a) svn \<Rightarrow> ('d fs_state, 'a) svn" where
  "on_disk m s = (case m (disk s) of (r, d') \<Rightarrow> (r, s\<lparr>disk := d'\<rparr>))"

text \<open>
  Modelled from the spec: \<^verbatim>\<open>svn_fs_fs__youngest_rev\<close> and
  \<^verbatim>\<open>svn_fs_fs__write_current\<close> are not among the sources.  By the spec the committer
  reads \<^verbatim>\<open>old_rev\<close> from \<^verbatim>\<open>current\<close>, and writes to \<^verbatim>\<open>current\<close> atomically
  the new revision, with the new node and copy ids in the legacy format.
\<close>

definition svn_fs_fs__youngest_rev :: "'d commit_env \<Rightarrow> ('d fs_state, svn_revnum) svn" where
  "svn_fs_fs__youngest_rev env s =
     (case current_read_err env (disk s) of
        Some err \<Rightarrow> (Inl err, s)
      | None \<Rightarrow> (Inr (current_rev s), s))"

definition svn_fs_fs__write_current ::
  "'d commit_env \<Rightarrow> svn_revnum \<Rightarrow> string option \<Rightarrow> string option \<Rightarrow> ('d fs_state, unit) svn" where
  "svn_fs_fs__write_current env revnum next_node_id next_copy_id =
     SVN_ERR (on_disk (current_write env))
       (\<lambda>_ s. (Inr (), s\<lparr>current_rev := revnum, current_ids := (next_node_id, next_copy_id)\<rparr>))"

text \<open>\<^verbatim>\<open>svn_fs_txn_t\<close> and \<^verbatim>\<open>struct commit_baton\<close>, with the fields that
  \<^verbatim>\<open>commit_body\<close> reads itself; \<^verbatim>\<open>*new_rev_p\<close> is in the state.\<close>

record svn_fs_txn =
  txn_name :: string
  base_rev :: svn_revnum

record commit_baton =
  txn :: svn_fs_txn
  set_timestamp :: bool

text \<open>\<^verbatim>\<open>validate_root_noderev\<close>.\<close>

definition validate_root_noderev ::
  "'d commit_env \<Rightarrow> node_revision \<Rightarrow> svn_revnum \<Rightarrow> ('d, unit) svn" where
  "validate_root_noderev env root_noderev revnum =
     (let head_revnum = revnum - 1 in
      if \<not> revnum > 0 then svn_fail SVN_ERR_ASSERTION_FAIL
      else
        SVN_ERR (svn_fs_fs__revision_root env head_revnum) (\<lambda>head_revision.
        SVN_ERR (svn_fs_fs__node_id env head_revision ''/'') (\<lambda>head_root_id.
        SVN_ERR (svn_fs_fs__get_node_revision env head_root_id) (\<lambda>head_root_noderev.
        let head_predecessor_count = predecessor_count head_root_noderev in
        if predecessor_count root_noderev \<noteq> - 1
           \<and> predecessor_count root_noderev - head_predecessor_count \<noteq> revnum - head_revnum
        then svn_fail SVN_ERR_FS_CORRUPT
        else svn_return ()))))"

text \<open>
  \<^verbatim>\<open>write_final_rev\<close> for one node revision.  The recursion into the children, the
  rewriting of the representations and the final id are in \<open>finalize_noderev\<close>.  The
  result is \<^verbatim>\<open>*new_id_p\<close>, null for an id that is not of a transaction.
\<close>

definition write_final_rev ::
  "'d commit_env \<Rightarrow> fs_path \<Rightarrow> svn_revnum \<Rightarrow> svn_fs_id \<Rightarrow> string option \<Rightarrow> string option
     \<Rightarrow> int \<Rightarrow> bool \<Rightarrow> ('d, svn_fs_id option) svn" where
  "write_final_rev env f revnum i start_node_id start_copy_id initial_offset at_root =
     (if \<not> svn_fs_fs__id_is_txn i then svn_return None
      else
        SVN_ERR (svn_fs_fs__get_node_revision env i) (\<lambda>nr.
        SVN_ERR (finalize_noderev env f revnum start_node_id start_copy_id initial_offset
                   at_root nr) (\<lambda>nr1.
        SVN_ERR (if at_root then validate_root_noderev env nr1 revnum else svn_return ()) (\<lambda>_.
        SVN_ERR (svn_fs_fs__write_noderev env f nr1) (\<lambda>_.
        svn_return (Some (noderev_id nr1)))))))"

text \<open>\<^verbatim>\<open>write_final_current\<close>.\<close>

definition write_final_current ::
  "'d commit_env \<Rightarrow> string \<Rightarrow> svn_revnum \<Rightarrow> string option \<Rightarrow> string option
     \<Rightarrow> ('d fs_state, unit) svn" where
  "write_final_current env tid revnum start_node_id start_copy_id =
     (if \<not> global_ids_format env then svn_fs_fs__write_current env revnum None None
      else
        SVN_ERR (on_disk (read_next_ids env tid)) (\<lambda>(txn_node_id, txn_copy_id).
        svn_fs_fs__write_current env revnum
          (Some (svn_fs_fs__add_keys env start_node_id txn_node_id))
          (Some (svn_fs_fs__add_keys env start_copy_id txn_copy_id))))"

text \<open>The creation of one shard directory in \<^verbatim>\<open>commit_body\<close>: an error of
  \<^verbatim>\<open>svn_io_dir_make\<close> is ignored when the directory exists already.\<close>

definition make_shard :: "'d commit_env \<Rightarrow> fs_path \<Rightarrow> fs_path \<Rightarrow> ('d, unit) svn" where
  "make_shard env new_dir parent d =
     (case svn_io_dir_make env new_dir d of
        (Inl err, d1) \<Rightarrow>
          if \<not> APR_STATUS_IS_EEXIST env err then (Inl err, d1)
          else svn_io_copy_perms env parent new_dir d1
      | (Inr u, d1) \<Rightarrow> svn_io_copy_perms env parent new_dir d1)"

text \<open>The ids that \<^verbatim>\<open>commit_body\<close> starts from: those of
  \<^verbatim>\<open>get_next_revision_ids\<close> in the legacy format, and null otherwise.\<close>

definition start_ids :: "'d commit_env \<Rightarrow> ('d, string option \<times> string option) svn" where
  "start_ids env =
     (if global_ids_format env
      then SVN_ERR (get_next_revision_ids env) (\<lambda>(n, c). svn_return (Some n, Some c))
      else svn_return (None, None))"

text \<open>\<^verbatim>\<open>commit_body\<close>, called with the write lock of the repository held.\<close>

definition commit_body :: "'d commit_env \<Rightarrow> commit_baton \<Rightarrow> ('d fs_state, unit) svn" where
  "commit_body env cb =
     SVN_ERR (svn_fs_fs__youngest_rev env) (\<lambda>old_rev.
     if base_rev (txn cb) \<noteq> old_rev then svn_fail SVN_ERR_FS_TXN_OUT_OF_DATE
     else
     SVN_ERR (on_disk (verify_locks env (txn_name (txn cb)))) (\<lambda>_.
     SVN_ERR (on_disk (start_ids env)) (\<lambda>(start_node_id, start_copy_id).
     let new_rev = old_rev + 1 in
     SVN_ERR (on_disk (get_writable_proto_rev env (txn_name (txn cb))))
       (\<lambda>(proto_file, proto_file_lockcookie).
     SVN_ERR (on_disk (svn_fs_fs__get_file_offset_of env proto_file)) (\<lambda>initial_offset.
     let root_id = svn_fs_fs__id_txn_create ''0'' ''0'' (txn_name (txn cb)) in
     SVN_ERR (on_disk (write_final_rev env proto_file new_rev root_id start_node_id
                         start_copy_id initial_offset True)) (\<lambda>new_root_id.
     SVN_ERR (on_disk (write_final_changed_path_info env proto_file (txn_name (txn cb))))
       (\<lambda>changed_path_offset.
     let trailer = unparse_revision_trailer env new_root_id changed_path_offset in
     SVN_ERR (on_disk (svn_io_file_write_full env proto_file trailer)) (\<lambda>_.
     SVN_ERR (on_disk (svn_io_file_flush_to_disk env proto_file)) (\<lambda>_.
     SVN_ERR (on_disk (svn_io_file_close env proto_file)) (\<lambda>_.
     SVN_ERR (on_disk (svn_fs_fs__txn_proplist env (txn_name (txn cb)))) (\<lambda>txnprops.
     let txnprop_list =
           (if map_of txnprops (SVN_FS__PROP_TXN_CHECK_OOD env) \<noteq> None
            then [(SVN_FS__PROP_TXN_CHECK_OOD env, None)] else [])
           @ (if map_of txnprops (SVN_FS__PROP_TXN_CHECK_LOCKS env) \<noteq> None
              then [(SVN_FS__PROP_TXN_CHECK_LOCKS env, None)] else [])
     in
     SVN_ERR (if txnprop_list \<noteq> []
              then on_disk (svn_fs_fs__change_txn_props env (txn_name (txn cb)) txnprop_list)
              else svn_return ()) (\<lambda>_.
     SVN_ERR (if max_files_per_dir env \<noteq> 0 \<and> new_rev mod max_files_per_dir env = 0
              then
                SVN_ERR (on_disk (make_shard env (path_rev_shard new_rev) path_revs_dir)) (\<lambda>_.
                SVN_ERR (\<lambda>s. if svn_fs_fs__is_packed_revprop env new_rev (disk s)
                             then (Inl SVN_ERR_ASSERTION_FAIL, s) else (Inr (), s)) (\<lambda>_.
                on_disk (make_shard env (path_revprops_shard new_rev) path_revprops_dir)))
              else svn_return ()) (\<lambda>_.
     let old_rev_filename = path_rev_absolute old_rev;
         rev_filename = path_rev new_rev;
         proto_filename = path_txn_proto_rev (txn_name (txn cb))
     in
     SVN_ERR (on_disk (svn_fs_fs__move_into_place env proto_filename rev_filename
                         old_rev_filename)) (\<lambda>_.
     SVN_ERR (on_disk (unlock_proto_rev_of env (txn_name (txn cb)) proto_file_lockcookie))
       (\<lambda>_.
     SVN_ERR (if set_timestamp cb
              then (\<lambda>s. on_disk (svn_fs_fs__change_txn_prop env (txn_name (txn cb))
                                   (SVN_PROP_REVISION_DATE env)
                                   (time_now_cstring env (disk s))) s)
              else svn_return ()) (\<lambda>_.
     SVN_ERR (\<lambda>s. if svn_fs_fs__is_packed_revprop env new_rev (disk s)
                  then (Inl SVN_ERR_ASSERTION_FAIL, s) else (Inr (), s)) (\<lambda>_.
     let revprop_filename = path_txn_props (txn_name (txn cb));
         final_revprop = path_revprops new_rev
     in
     SVN_ERR (on_disk (svn_fs_fs__move_into_place env revprop_filename final_revprop
                         old_rev_filename)) (\<lambda>_.
     SVN_ERR (on_disk (verify_as_revision_before_current_plus_plus env new_rev)) (\<lambda>_.
     SVN_ERR (write_final_current env (txn_name (txn cb)) new_rev start_node_id
                start_copy_id) (\<lambda>_.
     SVN_ERR (\<lambda>s. (Inr (), s\<lparr>new_rev_p := new_rev, youngest_rev_cache := new_rev\<rparr>)) (\<lambda>_.
     on_disk (svn_fs_fs__purge_txn env (txn_name (txn cb))))))))))))))))))))))))"


section \<open>Folding the changes log\<close>

datatype svn_fs_path_change_kind =
    svn_fs_path_change_modify
  | svn_fs_path_change_add
  | svn_fs_path_change_delete
  | svn_fs_path_change_replace
  | svn_fs_path_change_reset

text \<open>
  \<^verbatim>\<open>svn_fs_path_change2_t\<close>: the public change of one path.  A null
  \<^verbatim>\<open>node_rev_id\<close> or \<^verbatim>\<open>copyfrom_path\<close> is \<open>None\<close>.  \<^verbatim>\<open>svn_fs_fs__id_eq\<close>
  (outside the sources) is equality of ids, and \<^verbatim>\<open>apr_pstrdup\<close>, called on
  strings that are not null only, copies a string unchanged.
\<close>

record svn_fs_path_change2 =
  node_rev_id :: "svn_fs_id option"
  change_kind :: svn_fs_path_change_kind
  text_mod :: bool
  prop_mod :: bool
  node_kind :: svn_node_kind
  copyfrom_rev :: svn_revnum
  copyfrom_path :: "string option"

text \<open>\<^verbatim>\<open>change_t\<close>: one record of the changes log.\<close>

record change =
  path :: string
  info :: svn_fs_path_change2

text \<open>
  Modelled from the spec: \<^verbatim>\<open>svn_fs_fs__id_copy\<close> belongs to \<^verbatim>\<open>id.c\<close>, which is not
  among the sources.  It duplicates an id into another pool; ids are values here, so
  the copy is the id.  \<^verbatim>\<open>fold_change\<close> hands it the id of a change record, which
  may be null: the copy of a null id is taken to be null, the only reading under
  which the call returns; the sources do not show what \<^verbatim>\<open>id.c\<close> does with it.
\<close>

definition svn_fs_fs__id_copy :: "svn_fs_id option \<Rightarrow> svn_fs_id option" where
  [simp]: "svn_fs_fs__id_copy source = source"

text \<open>The hash \<^verbatim>\<open>changes\<close>, from paths to the changes folded so far.\<close>

type_synonym changed_paths = "string \<rightharpoonup> svn_fs_path_change2"

text \<open>
  \<^verbatim>\<open>fold_change\<close>.  When the path has an entry, the four sanity checks run in the
  source's order and the new change is merged into the entry (which the source updates
  in place); a merge that leaves \<^verbatim>\<open>old_change == NULL\<close> removes the entry.  When the
  path has no entry, a copy of the change is stored, its id copied by
  \<^verbatim>\<open>svn_fs_fs__id_copy\<close>, with no check.
\<close>

definition fold_change ::
  "changed_paths \<Rightarrow> change \<Rightarrow> svn_error + changed_paths" where
  "fold_change changes chg =
     (let p = path chg; inf = info chg in
      case changes p of
        Some old_change \<Rightarrow>
          if node_rev_id inf = None \<and> change_kind inf \<noteq> svn_fs_path_change_reset
          then Inl SVN_ERR_FS_CORRUPT
          else if node_rev_id inf \<noteq> None
                  \<and> node_rev_id old_change \<noteq> node_rev_id inf
                  \<and> change_kind old_change \<noteq> svn_fs_path_change_delete
          then Inl SVN_ERR_FS_CORRUPT
          else if change_kind old_change = svn_fs_path_change_delete
                  \<and> \<not> (change_kind inf = svn_fs_path_change_replace
                         \<or> change_kind inf = svn_fs_path_change_reset
                         \<or> change_kind inf = svn_fs_path_change_add)
          then Inl SVN_ERR_FS_CORRUPT
          else if change_kind inf = svn_fs_path_change_add
                  \<and> change_kind old_change \<noteq> svn_fs_path_change_delete
                  \<and> change_kind old_change \<noteq> svn_fs_path_change_reset
          then Inl SVN_ERR_FS_CORRUPT
          else Inr
            (case change_kind inf of
               svn_fs_path_change_reset \<Rightarrow> changes(p := None)
             | svn_fs_path_change_delete \<Rightarrow>
                 if change_kind old_change = svn_fs_path_change_add
                 then changes(p := None)
                 else changes(p \<mapsto> old_change
                   \<lparr>change_kind := svn_fs_path_change_delete,
                    text_mod := text_mod inf,
                    prop_mod := prop_mod inf,
                    copyfrom_rev := SVN_INVALID_REVNUM,
                    copyfrom_path := None\<rparr>)
             | svn_fs_path_change_add \<Rightarrow>
                 changes(p \<mapsto> old_change
                   \<lparr>node_rev_id := svn_fs_fs__id_copy (node_rev_id inf),
                    change_kind := svn_fs_path_change_replace,
                    text_mod := text_mod inf,
                    prop_mod := prop_mod inf,
                    copyfrom_rev :=
                      (if copyfrom_rev inf = SVN_INVALID_REVNUM
                       then SVN_INVALID_REVNUM else copyfrom_rev inf),
                    copyfrom_path :=
                      (if copyfrom_rev inf = SVN_INVALID_REVNUM
                       then None else copyfrom_path inf)\<rparr>)
             | svn_fs_path_change_replace \<Rightarrow>
                 changes(p \<mapsto> old_change
                   \<lparr>node_rev_id := svn_fs_fs__id_copy (node_rev_id inf),
                    change_kind := svn_fs_path_change_replace,
                    text_mod := text_mod inf,
                    prop_mod := prop_mod inf,
                    copyfrom_rev :=
                      (if copyfrom_rev inf = SVN_INVALID_REVNUM
                       then SVN_INVALID_REVNUM else copyfrom_rev inf),
                    copyfrom_path :=
                      (if copyfrom_rev inf = SVN_INVALID_REVNUM
                       then None else copyfrom_path inf)\<rparr>)
             | svn_fs_path_change_modify \<Rightarrow>
                 changes(p \<mapsto> old_change
                   \<lparr>text_mod := (if text_mod inf then True else text_mod old_change),
                    prop_mod := (if prop_mod inf then True else prop_mod old_change)\<rparr>))
      | None \<Rightarrow>
          Inr (changes(p \<mapsto> inf\<lparr>node_rev_id := svn_fs_fs__id_copy (node_rev_id inf)\<rparr>)))"

text \<open>
  Modelled from the spec: \<^verbatim>\<open>svn_dirent_is_child\<close> (\<^verbatim>\<open>libsvn_subr/dirent_uri.c\<close>)
  is not among the sources.  The spec calls a path a strict child of \<open>P\<close> when \<open>P\<close> is
  a prefix of it ending at a path separator, or when \<open>P\<close> is the root (the empty
  path): after \<open>P\<close> come the separator, unless \<open>P\<close> ends with it, and at least one
  character of a name.
\<close>

definition svn_dirent_is_child :: "string \<Rightarrow> string \<Rightarrow> bool" where
  "svn_dirent_is_child parent child =
     (if parent = [] then child \<noteq> []
      else if last parent = CHR ''/''
      then length parent < length child \<and> take (length parent) child = parent
      else length parent + 1 < length child
           \<and> take (length parent + 1) child = parent @ ''/'')"

text \<open>The least length of a key that can be a child of the changed path
  (\<^verbatim>\<open>min_child_len\<close> in \<^verbatim>\<open>process_changes\<close>).\<close>

definition min_child_len :: "string \<Rightarrow> nat" where
  "min_child_len p =
     (if length p = 0 then 1
      else if p ! (length p - 1) = CHR ''/'' then length p + 1
      else length p + 2)"

text \<open>The inner loop of \<^verbatim>\<open>process_changes\<close>: it visits every key of the hash and
  removes the keys that are long enough and children of the changed path.\<close>

definition remove_children :: "string \<Rightarrow> changed_paths \<Rightarrow> changed_paths" where
  "remove_children p changed =
     (\<lambda>k. if min_child_len p \<le> length k \<and> svn_dirent_is_child p k
          then None else changed k)"

text \<open>\<^verbatim>\<open>process_changes\<close>: the records are folded in the order of the log, and the
  first error ends the loop.\<close>

fun process_changes ::
  "changed_paths \<Rightarrow> change list \<Rightarrow> svn_error + changed_paths" where
  "process_changes changed [] = Inr changed"
| "process_changes changed (chg # rest) =
     (case fold_change changed chg of
        Inl err \<Rightarrow> Inl err
      | Inr changed1 \<Rightarrow>
          if change_kind (info chg) = svn_fs_path_change_delete
             \<or> change_kind (info chg) = svn_fs_path_change_replace
          then process_changes (remove_children (path chg) changed1) rest
          else process_changes changed1 rest)"

text \<open>
  \<^verbatim>\<open>svn_fs_fs__txn_changes_fetch\<close>.  Opening the changes file, reading its records
  (\<^verbatim>\<open>svn_fs_fs__read_changes\<close>) and closing it are outside the sources: their
  outcomes are parameters, \<open>None\<close> for success of an operation with no result.
\<close>

definition svn_fs_fs__txn_changes_fetch ::
  "svn_error option \<Rightarrow> (svn_error + change list) \<Rightarrow> svn_error option
     \<Rightarrow> svn_error + changed_paths" where
  "svn_fs_fs__txn_changes_fetch file_open read_changes file_close =
     (case file_open of
        Some err \<Rightarrow> Inl err
      | None \<Rightarrow>
          (case read_changes of
             Inl err \<Rightarrow> Inl err
           | Inr changes \<Rightarrow>
               (case process_changes Map.empty changes of
                  Inl err \<Rightarrow> Inl err
                | Inr changed \<Rightarrow>
                    (case file_close of
                       Some err \<Rightarrow> Inl err
                     | None \<Rightarrow> Inr changed))))"

section \<open>Vocabulary of the statements\<close>

text \<open>
  The index of the chosen delta base in the spec's words: clear the least-significant
  set bit of the predecessor count, unless that walks fewer than
  \<^verbatim>\<open>max_linear_deltification\<close> steps back, in which case the index is the
  predecessor count minus one.
\<close>

definition skip_delta_count :: "delta_fs \<Rightarrow> int \<Rightarrow> int" where
  "skip_delta_count fs pc =
     (if pc - (pc AND (pc - 1)) < max_linear_deltification fs then pc - 1
      else pc AND (pc - 1))"

text \<open>
  Two properties of a function on the repository, for the proofs about
  \<^verbatim>\<open>commit_body\<close>: it leaves the file \<^verbatim>\<open>current\<close>, the cache of the youngest
  revision and \<^verbatim>\<open>*new_rev_p\<close> as they are; and it either fails and leaves them as
  they are, or sets all three to a given revision.
\<close>

definition keeps_head :: "('d fs_state, 'a) svn \<Rightarrow> bool" where
  "keeps_head m = (\<forall>s r s'. m s = (r, s') \<longrightarrow>
     current_rev s' = current_rev s \<and> new_rev_p s' = new_rev_p s
     \<and> youngest_rev_cache s' = youngest_rev_cache s \<and> current_ids s' = current_ids s)"

definition commit_outcome :: "svn_revnum \<Rightarrow> ('d fs_state, unit) svn \<Rightarrow> bool" where
  "commit_outcome new_rev m = (\<forall>s r s'. m s = (r, s') \<longrightarrow>
     (r \<noteq> Inr () \<and> current_rev s' = current_rev s \<and> new_rev_p s' = new_rev_p s
        \<and> youngest_rev_cache s' = youngest_rev_cache s \<and> current_ids s' = current_ids s)
     \<or> (current_rev s' = new_rev \<and> new_rev_p s' = new_rev \<and> youngest_rev_cache s' = new_rev))"

section \<open>Concrete inputs\<close>

text \<open>
  A change record for a path, with a kind and a node revision id, and the id of a
  node of the transaction \<^verbatim>\<open>5-1\<close>.
\<close>

definition mk_change :: "string \<Rightarrow> svn_fs_path_change_kind \<Rightarrow> svn_fs_id option \<Rightarrow> change" where
  "mk_change p k i =
     \<lparr>path = p,
      info = \<lparr>node_rev_id = i, change_kind = k, text_mod = False, prop_mod = False,
              node_kind = svn_node_file, copyfrom_rev = SVN_INVALID_REVNUM,
              copyfrom_path = None\<rparr>\<rparr>"

definition txn_node :: "string \<Rightarrow> svn_fs_id" where
  "txn_node n = svn_fs_fs__id_txn_create n ''0'' ''5-1''"

text \<open>
  A history of one file: in revision \<open>r\<close> the node has \<open>r - 1\<close> predecessors, the
  node of revision \<open>r - 1\<close> being the last, and its data representation was written in
  revision \<open>r - lag\<close>.  A repository that holds this history, with its tunables and
  the chain length it reports; and the node of a transaction based on revision \<open>r\<close>.
\<close>

definition history_rep :: "svn_revnum \<Rightarrow> representation" where
  "history_rep r =
     \<lparr>md5_checksum = None, sha1_checksum = None, revision = r, offset = 0, size' = 10,
      expanded_size = 20, txn_id = None, uniquifier = None\<rparr>"

definition history_id :: "svn_revnum \<Rightarrow> svn_fs_id" where
  "history_id r = \<lparr>node_id = ''3'', copy_id = ''0'', origin = Rev_origin r 0\<rparr>"

definition history_node :: "int \<Rightarrow> svn_revnum \<Rightarrow> node_revision" where
  "history_node lag r =
     \<lparr>kind = svn_node_file, noderev_id = history_id r,
      predecessor_id = (if r > 1 then Some (history_id (r - 1)) else None),
      predecessor_count = r - 1, prop_rep = None,
      data_rep = Some (history_rep (r - lag)), is_fresh_txn_root = False\<rparr>"

definition history_fs :: "int \<Rightarrow> int \<Rightarrow> int \<Rightarrow> delta_fs" where
  "history_fs max_linear lag chain =
     \<lparr>max_linear_deltification = max_linear, max_deltification_walk = 1023,
      get_node_revision =
        (\<lambda>i. case i of
               None \<Rightarrow> Inl SVN_ERR_FS_CORRUPT
             | Some j \<Rightarrow>
                 (case origin j of
                    Rev_origin r off \<Rightarrow> Inr (history_node lag r)
                  | Txn_origin t \<Rightarrow> Inl SVN_ERR_FS_CORRUPT)),
      rep_chain_length = (\<lambda>rep. Inr chain)\<rparr>"

definition changed_node :: "svn_revnum \<Rightarrow> node_revision" where
  "changed_node r =
     \<lparr>kind = svn_node_file, noderev_id = txn_node ''3'',
      predecessor_id = Some (history_id r), predecessor_count = r, prop_rep = None,
      data_rep = None, is_fresh_txn_root = False\<rparr>"

text \<open>
  An operating system on which every call succeeds but for the status of the file
  lock, and a registry with two transactions.
\<close>

definition quiet_os :: "apr_status \<Rightarrow> proto_rev_os" where
  "quiet_os lock_status =
     \<lparr>lockfile_open = None, lockfile_lock = lock_status, proto_rev_open = None,
      proto_rev_seek = None, lockfile_unlock = APR_SUCCESS, lockfile_close = APR_SUCCESS,
      proto_rev_bytes = ''head''\<rparr>"

definition registry :: "bool \<Rightarrow> fs_fs_shared_data" where
  "registry flag =
     \<lparr>txns = [\<lparr>shared_txn_id = ''4-1'', being_written = False\<rparr>,
              \<lparr>shared_txn_id = ''5-1'', being_written = flag\<rparr>],
      free_txn = None\<rparr>"

text \<open>
  Calls that all succeed, with digests that show their input; a rep-cache that knows
  the content \<^verbatim>\<open>hello\<close>, and the same with rep-sharing switched off; a writer that
  has written the header and has five bytes of svndiff pending; the pieces of a
  serialised directory with one entry.
\<close>

definition quiet_io :: rep_io where
  "quiet_io =
     \<lparr>delta_stream_close = None, get_file_offset_err = None,
      get_new_txn_node_id = Inr ''_7'', file_trunc_err = None, header_puts_err = None,
      hash_write_err = None, endrep_puts_err = None, noderev_write_err = None,
      store_sha1_rep_mapping = None, file_close_err = None, unlock_proto_rev = None,
      md5_digest = (\<lambda>d. ''md5:'' @ d), sha1_digest = (\<lambda>d. ''sha1:'' @ d)\<rparr>"

definition cached_rep :: representation where
  "cached_rep =
     \<lparr>md5_checksum = None, sha1_checksum = Some ''sha1:hello'', revision = 2, offset = 0,
      size' = 9, expanded_size = 5, txn_id = None, uniquifier = None\<rparr>"

definition sharing_fs :: rep_sharing_fs where
  "sharing_fs =
     \<lparr>rep_sharing_allowed = True,
      get_rep_reference = (\<lambda>sha1. if sha1 = Some ''sha1:hello'' then Inr (Some cached_rep) else Inr None),
      check_rep = (\<lambda>r. None),
      path_txn_sha1 = (\<lambda>t sha1. printf_s t @ ''/'' @ printf_s sha1),
      check_path = (\<lambda>name. Inr svn_node_none),
      stringbuf_from_file2 = (\<lambda>name. Inr []),
      parse_representation = (\<lambda>str. Inr None)\<rparr>"

definition no_sharing_fs :: rep_sharing_fs where
  "no_sharing_fs = sharing_fs\<lparr>rep_sharing_allowed := False\<rparr>"

definition file_node :: node_revision where
  "file_node =
     \<lparr>kind = svn_node_file, noderev_id = txn_node ''_3'', predecessor_id = None,
      predecessor_count = 0, prop_rep = None, data_rep = None, is_fresh_txn_root = False\<rparr>"

definition hello_baton :: rep_write_baton where
  "hello_baton =
     \<lparr>delta_stream = Some ''hello'', rep_offset = 4, delta_start = 10, rep_size = 5,
      noderev = file_node, file' = \<lparr>contents = ''headDELTA\<newline>'', filepos = 10\<rparr>,
      lockcookie = Some ''5-1'', md5_checksum_ctx = ''hello'', sha1_checksum_ctx = ''hello''\<rparr>"

definition dir_hash :: "string list" where
  "dir_hash = [''K 1\<newline>'', ''a\<newline>'', ''V 17\<newline>'', ''file 3.0.r2/0\<newline>'', ''END\<newline>'']"

text \<open>
  A repository at revision 5 whose operations succeed and write their names to a log
  (the log is the rest of the state), with the root node revision of the transaction
  \<^verbatim>\<open>5-1\<close> holding a given predecessor count, the root of revision 5 holding 5; the
  commit of a transaction based on a revision; and the root node revision as
  \<open>finalize_noderev\<close> returns it.
\<close>

definition logged :: "string \<Rightarrow> 'a \<Rightarrow> (string list, 'a) svn" where
  "logged name a d = (Inr a, d @ [name])"

definition head_root :: node_revision where
  "head_root =
     \<lparr>kind = svn_node_dir,
      noderev_id = \<lparr>node_id = ''0'', copy_id = ''0'', origin = Rev_origin 5 0\<rparr>,
      predecessor_id = Some \<lparr>node_id = ''0'', copy_id = ''0'', origin = Rev_origin 4 0\<rparr>,
      predecessor_count = 5, prop_rep = None, data_rep = None, is_fresh_txn_root = False\<rparr>"

definition txn_root :: "int \<Rightarrow> node_revision" where
  "txn_root root_count =
     \<lparr>kind = svn_node_dir,
      noderev_id = svn_fs_fs__id_txn_create ''0'' ''0'' ''5-1'',
      predecessor_id = Some (noderev_id head_root),
      predecessor_count = root_count, prop_rep = None, data_rep = None,
      is_fresh_txn_root = True\<rparr>"

definition final_root :: "int \<Rightarrow> node_revision" where
  "final_root root_count =
     (txn_root root_count)
       \<lparr>noderev_id := \<lparr>node_id = ''0'', copy_id = ''0'', origin = Rev_origin 6 17\<rparr>,
        is_fresh_txn_root := False\<rparr>"

definition logging_env :: "int \<Rightarrow> string list commit_env" where
  "logging_env root_count =
     \<lparr>global_ids_format = False,
      max_files_per_dir = 1000,
      SVN_FS__PROP_TXN_CHECK_OOD = ''svn:check-ood'',
      SVN_FS__PROP_TXN_CHECK_LOCKS = ''svn:check-locks'',
      SVN_PROP_REVISION_DATE = ''svn:date'',
      current_read_err = (\<lambda>d. None),
      current_write = logged ''write_current'' (),
      verify_locks = (\<lambda>t. logged ''verify_locks'' ()),
      get_next_revision_ids = logged ''get_next_revision_ids'' (''a'', ''b''),
      get_writable_proto_rev =
        (\<lambda>t. logged ''get_writable_proto_rev'' (path_txn_proto_rev t, Some t)),
      svn_fs_fs__get_file_offset_of = (\<lambda>f. logged ''get_file_offset'' 0),
      svn_fs_fs__get_node_revision =
        (\<lambda>i. logged ''get_node_revision''
               (if svn_fs_fs__id_is_txn i then txn_root root_count else head_root)),
      finalize_noderev =
        (\<lambda>f r a b off at_root nr. logged ''finalize_noderev''
           (nr\<lparr>noderev_id := \<lparr>node_id = ''0'', copy_id = ''0'', origin = Rev_origin r 17\<rparr>,
               is_fresh_txn_root := False\<rparr>)),
      svn_fs_fs__revision_root = (\<lambda>r. logged ''revision_root'' r),
      svn_fs_fs__node_id =
        (\<lambda>r p. logged ''node_id'' \<lparr>node_id = ''0'', copy_id = ''0'', origin = Rev_origin r 0\<rparr>),
      svn_fs_fs__write_noderev = (\<lambda>f nr. logged ''write_noderev'' ()),
      write_final_changed_path_info = (\<lambda>f t. logged ''write_final_changed_path_info'' 40),
      unparse_revision_trailer = (\<lambda>i off. ''17 40\<newline>''),
      svn_io_file_write_full = (\<lambda>f bytes. logged ''write_full'' ()),
      svn_io_file_flush_to_disk = (\<lambda>f. logged ''flush_to_disk'' ()),
      svn_io_file_close = (\<lambda>f. logged ''file_close'' ()),
      svn_fs_fs__txn_proplist = (\<lambda>t. logged ''txn_proplist'' []),
      svn_fs_fs__change_txn_props = (\<lambda>t props. logged ''change_txn_props'' ()),
      svn_io_dir_make = (\<lambda>p. logged ''dir_make'' ()),
      APR_STATUS_IS_EEXIST = (\<lambda>err. False),
      svn_io_copy_perms = (\<lambda>p q. logged ''copy_perms'' ()),
      svn_fs_fs__is_packed_revprop = (\<lambda>r d. False),
      svn_fs_fs__move_into_place = (\<lambda>p q r. logged ''move_into_place'' ()),
      unlock_proto_rev_of = (\<lambda>t c. logged ''unlock_proto_rev'' ()),
      time_now_cstring = (\<lambda>d. ''2013-01-01''),
      svn_fs_fs__change_txn_prop = (\<lambda>t n v. logged ''change_txn_prop'' ()),
      verify_as_revision_before_current_plus_plus = (\<lambda>r. logged ''verify_as_revision'' ()),
      read_next_ids = (\<lambda>t. logged ''read_next_ids'' (''1'', ''1'')),
      svn_fs_fs__add_keys = (\<lambda>a b. b),
      svn_fs_fs__purge_txn = (\<lambda>t. logged ''purge_txn'' ())\<rparr>"

definition head5 :: "string list fs_state" where
  "head5 = \<lparr>current_rev = 5, current_ids = (None, None), youngest_rev_cache = 5,
            new_rev_p = - 1, disk = []\<rparr>"

definition commit_of :: "svn_revnum \<Rightarrow> commit_baton" where
  "commit_of b = \<lparr>txn = \<lparr>txn_name = ''5-1'', base_rev = b\<rparr>, set_timestamp = False\<rparr>"

lemmas logging_defs =
  logging_env_def logged_def head5_def commit_of_def txn_root_def head_root_def

section \<open>Theorems: the commit\<close>

lemma on_disk_fields:
  "on_disk m s = (r, s') \<Longrightarrow>
     current_rev s' = current_rev s \<and> new_rev_p s' = new_rev_p s
     \<and> youngest_rev_cache s' = youngest_rev_cache s \<and> current_ids s' = current_ids s"
  by (auto simp: on_disk_def split: prod.splits)

lemma keeps_head_on_disk [simp]: "keeps_head (on_disk m)"
  unfolding keeps_head_def using on_disk_fields by blast

lemma keeps_head_return [simp]: "keeps_head (svn_return a)"
  by (simp add: keeps_head_def svn_return_def)

lemma keeps_head_fail [simp]: "keeps_head (svn_fail e)"
  by (simp add: keeps_head_def svn_fail_def)

lemma keeps_head_bind [intro]:
  "keeps_head m \<Longrightarrow> (\<And>a. keeps_head (f a)) \<Longrightarrow> keeps_head (SVN_ERR m f)"
  unfolding keeps_head_def SVN_ERR_def
  by (auto split: prod.splits sum.splits)

lemma keeps_head_if [simp]:
  "keeps_head m \<Longrightarrow> keeps_head n \<Longrightarrow> keeps_head (if c then m else n)"
  by simp

lemma commit_outcome_fail [simp]: "commit_outcome n (svn_fail e)"
  by (simp add: commit_outcome_def svn_fail_def)

lemma commit_outcome_bind:
  assumes m: "keeps_head m" and f: "\<And>a. commit_outcome n (f a)"
  shows "commit_outcome n (SVN_ERR m f)"
  unfolding commit_outcome_def
proof (intro allI impI)
  fix s r s'
  assume run: "SVN_ERR m f s = (r, s')"
  obtain r1 s1 where m1: "m s = (r1, s1)" by (cases "m s")
  from m m1 have k: "current_rev s1 = current_rev s \<and> new_rev_p s1 = new_rev_p s
      \<and> youngest_rev_cache s1 = youngest_rev_cache s \<and> current_ids s1 = current_ids s"
    unfolding keeps_head_def by blast
  show "(r \<noteq> Inr () \<and> current_rev s' = current_rev s \<and> new_rev_p s' = new_rev_p s
          \<and> youngest_rev_cache s' = youngest_rev_cache s \<and> current_ids s' = current_ids s)
        \<or> (current_rev s' = n \<and> new_rev_p s' = n \<and> youngest_rev_cache s' = n)"
  proof (cases r1)
    case (Inl err)
    with run m1 k show ?thesis by (auto simp: SVN_ERR_def)
  next
    case (Inr a)
    with run m1 have "f a s1 = (r, s')" by (simp add: SVN_ERR_def)
    with f [of a] k show ?thesis unfolding commit_outcome_def by metis
  qed
qed

lemma keeps_head_case_prod [intro]:
  "(\<And>a b. keeps_head (f a b)) \<Longrightarrow> keeps_head (case_prod f x)"
  by (cases x) simp

lemma commit_outcome_case_prod:
  "(\<And>a b. commit_outcome n (f a b)) \<Longrightarrow> commit_outcome n (case_prod f x)"
  by (cases x) simp

lemma keeps_head_assert [simp]:
  "keeps_head (\<lambda>s. if c s then (Inl e, s) else (Inr (), s))"
  by (simp add: keeps_head_def)

lemma keeps_head_timestamp [simp]:
  "keeps_head (\<lambda>s. on_disk (m s) s)"
  unfolding keeps_head_def using on_disk_fields by blast

lemma commit_outcome_publish:
  "commit_outcome n
     (SVN_ERR (write_final_current env tid n a b) (\<lambda>_.
      SVN_ERR (\<lambda>s. (Inr (), s\<lparr>new_rev_p := n, youngest_rev_cache := n\<rparr>)) (\<lambda>_.
      on_disk (svn_fs_fs__purge_txn env tid))))"
  unfolding commit_outcome_def
  by (auto simp: SVN_ERR_def write_final_current_def svn_fs_fs__write_current_def on_disk_def
      split: prod.splits sum.splits if_splits)

text \<open>
  \<^verbatim>\<open>commit_body\<close> reads the youngest revision, compares it with the base of the
  transaction, and runs the rest of the commit, which either fails without touching
  \<^verbatim>\<open>current\<close> or publishes the revision after the one read.
\<close>

lemma commit_body_shape:
  "\<exists>g. commit_body env cb =
          SVN_ERR (svn_fs_fs__youngest_rev env)
            (\<lambda>old_rev. if base_rev (txn cb) \<noteq> old_rev
                        then svn_fail SVN_ERR_FS_TXN_OUT_OF_DATE else g old_rev)
       \<and> (\<forall>old_rev. commit_outcome (old_rev + 1) (g old_rev))"
  unfolding commit_body_def Let_def
  apply (intro exI conjI)
   apply (rule refl)
  apply (intro allI commit_outcome_publish commit_outcome_bind commit_outcome_case_prod
        keeps_head_bind keeps_head_case_prod keeps_head_if keeps_head_on_disk
        keeps_head_return keeps_head_assert keeps_head_timestamp)
  done

lemma commit_body_outcome:
  assumes "commit_body env cb s = (r, s')"
  shows "(r \<noteq> Inr () \<and> current_rev s' = current_rev s \<and> new_rev_p s' = new_rev_p s
          \<and> youngest_rev_cache s' = youngest_rev_cache s \<and> current_ids s' = current_ids s)
       \<or> (base_rev (txn cb) = current_rev s \<and> current_rev s' = current_rev s + 1
          \<and> new_rev_p s' = current_rev s + 1 \<and> youngest_rev_cache s' = current_rev s + 1)"
proof -
  obtain g where c: "commit_body env cb =
          SVN_ERR (svn_fs_fs__youngest_rev env)
            (\<lambda>old_rev. if base_rev (txn cb) \<noteq> old_rev
                        then svn_fail SVN_ERR_FS_TXN_OUT_OF_DATE else g old_rev)"
    and g: "\<And>old_rev. commit_outcome (old_rev + 1) (g old_rev)"
    using commit_body_shape [of env cb] by blast
  show ?thesis
  proof (cases "current_read_err env (disk s)")
    case (Some err)
    then show ?thesis using assms
      by (auto simp: c SVN_ERR_def svn_fs_fs__youngest_rev_def)
  next
    case None
    show ?thesis
    proof (cases "base_rev (txn cb) = current_rev s")
      case False
      then show ?thesis using assms None
        by (auto simp: c SVN_ERR_def svn_fs_fs__youngest_rev_def svn_fail_def)
    next
      case True
      with assms None have "g (current_rev s) s = (r, s')"
        by (simp add: c SVN_ERR_def svn_fs_fs__youngest_rev_def)
      with g [of "current_rev s"] True show ?thesis
        unfolding commit_outcome_def by blast
    qed
  qed
qed

text \<open>
  Claim C1.  Whenever \<^verbatim>\<open>commit_body\<close> succeeds, or changes the revision in
  \<^verbatim>\<open>current\<close> or the caller's \<^verbatim>\<open>*new_rev_p\<close> at all, the transaction was based
  on the revision \<^verbatim>\<open>old_rev\<close> that \<^verbatim>\<open>current\<close> held, and the revision written to
  \<^verbatim>\<open>current\<close>, the number given to the caller and the cached youngest revision are
  all \<^verbatim>\<open>old_rev + 1\<close>: the head advances by exactly one.
\<close>

theorem commit_body_new_rev:
  assumes "commit_body env cb s = (r, s')"
  shows "(r = Inr () \<or> current_rev s' \<noteq> current_rev s \<or> new_rev_p s' \<noteq> new_rev_p s)
         \<longrightarrow> (base_rev (txn cb) = current_rev s
              \<and> current_rev s' = current_rev s + 1
              \<and> new_rev_p s' = current_rev s + 1
              \<and> youngest_rev_cache s' = current_rev s + 1)"
  using commit_body_outcome [OF assms] by auto

theorem commit_body_new_rev_witness:
  "commit_body (logging_env 6) (commit_of 5) head5 =
     (Inr (),
      \<lparr>current_rev = 6, current_ids = (None, None), youngest_rev_cache = 6, new_rev_p = 6,
       disk = [''verify_locks'', ''get_writable_proto_rev'', ''get_file_offset'',
               ''get_node_revision'', ''finalize_noderev'', ''revision_root'', ''node_id'',
               ''get_node_revision'', ''write_noderev'', ''write_final_changed_path_info'',
               ''write_full'', ''flush_to_disk'', ''file_close'', ''txn_proplist'',
               ''move_into_place'', ''unlock_proto_rev'', ''move_into_place'',
               ''verify_as_revision'', ''write_current'', ''purge_txn'']\<rparr>)
   \<and> base_rev (txn (commit_of 5)) = current_rev head5
   \<and> current_rev (snd (commit_body (logging_env 6) (commit_of 5) head5)) = current_rev head5 + 1
   \<and> new_rev_p (snd (commit_body (logging_env 6) (commit_of 5) head5)) = current_rev head5 + 1"
proof -
  have run: "commit_body (logging_env 6) (commit_of 5) head5 =
     (Inr (),
      \<lparr>current_rev = 6, current_ids = (None, None), youngest_rev_cache = 6, new_rev_p = 6,
       disk = [''verify_locks'', ''get_writable_proto_rev'', ''get_file_offset'',
               ''get_node_revision'', ''finalize_noderev'', ''revision_root'', ''node_id'',
               ''get_node_revision'', ''write_noderev'', ''write_final_changed_path_info'',
               ''write_full'', ''flush_to_disk'', ''file_close'', ''txn_proplist'',
               ''move_into_place'', ''unlock_proto_rev'', ''move_into_place'',
               ''verify_as_revision'', ''write_current'', ''purge_txn'']\<rparr>)"
    by (simp add: commit_body_def SVN_ERR_def on_disk_def svn_fs_fs__youngest_rev_def Let_def
        start_ids_def svn_return_def svn_fail_def write_final_rev_def validate_root_noderev_def
        write_final_current_def svn_fs_fs__write_current_def svn_fs_fs__id_is_txn_def
        svn_fs_fs__id_txn_create_def logging_defs)
  from commit_body_new_rev [OF run] run show ?thesis by simp
qed

text \<open>
  Claim C2.  When the base revision of the transaction differs from the revision in
  \<^verbatim>\<open>current\<close> (which \<^verbatim>\<open>commit_body\<close> could read), the commit fails with
  \<^verbatim>\<open>SVN_ERR_FS_TXN_OUT_OF_DATE\<close> and the state is the one before the call: no
  operation on the repository has run.
\<close>

theorem commit_body_out_of_date:
  assumes "base_rev (txn cb) \<noteq> current_rev s"
      and "current_read_err env (disk s) = None"
  shows "commit_body env cb s = (Inl SVN_ERR_FS_TXN_OUT_OF_DATE, s)"
proof -
  obtain g where c: "commit_body env cb =
          SVN_ERR (svn_fs_fs__youngest_rev env)
            (\<lambda>old_rev. if base_rev (txn cb) \<noteq> old_rev
                        then svn_fail SVN_ERR_FS_TXN_OUT_OF_DATE else g old_rev)"
    using commit_body_shape [of env cb] by blast
  show ?thesis using assms
    by (simp add: c SVN_ERR_def svn_fs_fs__youngest_rev_def svn_fail_def)
qed

theorem commit_body_out_of_date_witness:
  "commit_body (logging_env 6) (commit_of 4) head5 = (Inl SVN_ERR_FS_TXN_OUT_OF_DATE, head5)"
proof -
  have a: "base_rev (txn (commit_of 4)) \<noteq> current_rev head5" by (simp add: logging_defs)
  have b: "current_read_err (logging_env 6) (disk head5) = None" by (simp add: logging_defs)
  from commit_body_out_of_date [OF a b] show ?thesis .
qed

text \<open>
  Claim C9, as amended.  Take a commit that reaches the validation of the root: the
  transaction is based on the head, and the steps before (the locks, the start ids,
  the proto-rev file, the root node revision and its finalisation) and the reading of
  the head's root node revision succeed.  Then \<^verbatim>\<open>validate_root_noderev\<close> fails with
  \<^verbatim>\<open>SVN_ERR_FS_CORRUPT\<close> exactly when the predecessor count of the root is not
  \<open>-1\<close> and differs from the head root's count plus one; and in that case
  \<^verbatim>\<open>commit_body\<close> fails with that error in the state the validation left: the node
  revision is not written, and \<^verbatim>\<open>current\<close> and \<^verbatim>\<open>*new_rev_p\<close> are untouched.
\<close>

theorem commit_body_validates_root:
  assumes "current_read_err env (disk s) = None"
      and "base_rev (txn cb) = current_rev s"
      and "0 \<le> current_rev s"
      and "verify_locks env (txn_name (txn cb)) (disk s) = (Inr (), d1)"
      and "start_ids env d1 = (Inr (start_node_id, start_copy_id), d2)"
      and "get_writable_proto_rev env (txn_name (txn cb)) d2 = (Inr (proto_file, cookie), d3)"
      and "svn_fs_fs__get_file_offset_of env proto_file d3 = (Inr initial_offset, d4)"
      and "svn_fs_fs__get_node_revision env
             (svn_fs_fs__id_txn_create ''0'' ''0'' (txn_name (txn cb))) d4 = (Inr nr, d5)"
      and "finalize_noderev env proto_file (current_rev s + 1) start_node_id start_copy_id
             initial_offset True nr d5 = (Inr root_noderev, d6)"
      and "svn_fs_fs__revision_root env (current_rev s) d6 = (Inr head_revision, d7)"
      and "svn_fs_fs__node_id env head_revision ''/'' d7 = (Inr head_root_id, d8)"
      and "svn_fs_fs__get_node_revision env head_root_id d8 = (Inr head_root_noderev, d9)"
  shows "validate_root_noderev env root_noderev (current_rev s + 1) d6 =
           ((if predecessor_count root_noderev \<noteq> - 1
                \<and> predecessor_count root_noderev - predecessor_count head_root_noderev \<noteq> 1
             then Inl SVN_ERR_FS_CORRUPT else Inr ()), d9)
         \<and> (predecessor_count root_noderev \<noteq> - 1
              \<and> predecessor_count root_noderev - predecessor_count head_root_noderev \<noteq> 1
            \<longrightarrow> commit_body env cb s = (Inl SVN_ERR_FS_CORRUPT, s\<lparr>disk := d9\<rparr>))"
proof -
  have v: "validate_root_noderev env root_noderev (current_rev s + 1) d6 =
           ((if predecessor_count root_noderev \<noteq> - 1
                \<and> predecessor_count root_noderev - predecessor_count head_root_noderev \<noteq> 1
             then Inl SVN_ERR_FS_CORRUPT else Inr ()), d9)"
    using assms(3,10-12)
    by (simp add: validate_root_noderev_def SVN_ERR_def svn_fail_def svn_return_def)
  have w: "write_final_rev env proto_file (current_rev s + 1)
             (svn_fs_fs__id_txn_create ''0'' ''0'' (txn_name (txn cb)))
             start_node_id start_copy_id initial_offset True d4 = (Inl SVN_ERR_FS_CORRUPT, d9)"
    if "predecessor_count root_noderev \<noteq> - 1
        \<and> predecessor_count root_noderev - predecessor_count head_root_noderev \<noteq> 1"
    using that assms(8,9) v
    by (simp add: write_final_rev_def SVN_ERR_def svn_fs_fs__id_is_txn_def
        svn_fs_fs__id_txn_create_def)
  have c: "commit_body env cb s = (Inl SVN_ERR_FS_CORRUPT, s\<lparr>disk := d9\<rparr>)"
    if "predecessor_count root_noderev \<noteq> - 1
        \<and> predecessor_count root_noderev - predecessor_count head_root_noderev \<noteq> 1"
    using assms(1,2,4-7) w [OF that]
    by (simp add: commit_body_def SVN_ERR_def on_disk_def svn_fs_fs__youngest_rev_def Let_def)
  from v c show ?thesis by blast
qed

theorem commit_body_validates_root_witness:
  "validate_root_noderev (logging_env 7) (final_root 7) 6
      [''verify_locks'', ''get_writable_proto_rev'', ''get_file_offset'',
       ''get_node_revision'', ''finalize_noderev'']
     = (Inl SVN_ERR_FS_CORRUPT,
        [''verify_locks'', ''get_writable_proto_rev'', ''get_file_offset'',
         ''get_node_revision'', ''finalize_noderev'', ''revision_root'', ''node_id'',
         ''get_node_revision''])
   \<and> commit_body (logging_env 7) (commit_of 5) head5
     = (Inl SVN_ERR_FS_CORRUPT,
        head5\<lparr>disk := [''verify_locks'', ''get_writable_proto_rev'', ''get_file_offset'',
                        ''get_node_revision'', ''finalize_noderev'', ''revision_root'',
                        ''node_id'', ''get_node_revision'']\<rparr>)"
proof -
  let ?env = "logging_env 7"
  have h1: "current_read_err ?env (disk head5) = None" by (simp add: logging_defs)
  have h2: "base_rev (txn (commit_of 5)) = current_rev head5" by (simp add: logging_defs)
  have h3: "0 \<le> current_rev head5" by (simp add: logging_defs)
  have h4: "verify_locks ?env (txn_name (txn (commit_of 5))) (disk head5)
              = (Inr (), [''verify_locks''])"
    by (simp add: logging_defs)
  have h5: "start_ids ?env [''verify_locks''] = (Inr (None, None), [''verify_locks''])"
    by (simp add: start_ids_def svn_return_def logging_defs)
  have h6: "get_writable_proto_rev ?env (txn_name (txn (commit_of 5))) [''verify_locks'']
              = (Inr (path_txn_proto_rev ''5-1'', Some ''5-1''),
                 [''verify_locks'', ''get_writable_proto_rev''])"
    by (simp add: logging_defs)
  have h7: "svn_fs_fs__get_file_offset_of ?env (path_txn_proto_rev ''5-1'')
              [''verify_locks'', ''get_writable_proto_rev'']
              = (Inr 0, [''verify_locks'', ''get_writable_proto_rev'', ''get_file_offset''])"
    by (simp add: logging_defs)
  have h8: "svn_fs_fs__get_node_revision ?env
              (svn_fs_fs__id_txn_create ''0'' ''0'' (txn_name (txn (commit_of 5))))
              [''verify_locks'', ''get_writable_proto_rev'', ''get_file_offset'']
              = (Inr (txn_root 7),
                 [''verify_locks'', ''get_writable_proto_rev'', ''get_file_offset'',
                  ''get_node_revision''])"
    by (simp add: logging_defs svn_fs_fs__id_is_txn_def svn_fs_fs__id_txn_create_def)
  have h9: "finalize_noderev ?env (path_txn_proto_rev ''5-1'') (current_rev head5 + 1) None None
              0 True (txn_root 7)
              [''verify_locks'', ''get_writable_proto_rev'', ''get_file_offset'',
               ''get_node_revision'']
              = (Inr (final_root 7),
                 [''verify_locks'', ''get_writable_proto_rev'', ''get_file_offset'',
                  ''get_node_revision'', ''finalize_noderev''])"
    by (simp add: logging_defs final_root_def)
  have h10: "svn_fs_fs__revision_root ?env (current_rev head5)
              [''verify_locks'', ''get_writable_proto_rev'', ''get_file_offset'',
               ''get_node_revision'', ''finalize_noderev'']
              = (Inr 5,
                 [''verify_locks'', ''get_writable_proto_rev'', ''get_file_offset'',
                  ''get_node_revision'', ''finalize_noderev'', ''revision_root''])"
    by (simp add: logging_defs)
  have h11: "svn_fs_fs__node_id ?env 5 ''/''
              [''verify_locks'', ''get_writable_proto_rev'', ''get_file_offset'',
               ''get_node_revision'', ''finalize_noderev'', ''revision_root'']
              = (Inr \<lparr>node_id = ''0'', copy_id = ''0'', origin = Rev_origin 5 0\<rparr>,
                 [''verify_locks'', ''get_writable_proto_rev'', ''get_file_offset'',
                  ''get_node_revision'', ''finalize_noderev'', ''revision_root'', ''node_id''])"
    by (simp add: logging_defs)
  have h12: "svn_fs_fs__get_node_revision ?env
              \<lparr>node_id = ''0'', copy_id = ''0'', origin = Rev_origin 5 0\<rparr>
              [''verify_locks'', ''get_writable_proto_rev'', ''get_file_offset'',
               ''get_node_revision'', ''finalize_noderev'', ''revision_root'', ''node_id'']
              = (Inr head_root,
                 [''verify_locks'', ''get_writable_proto_rev'', ''get_file_offset'',
                  ''get_node_revision'', ''finalize_noderev'', ''revision_root'', ''node_id'',
                  ''get_node_revision''])"
    by (simp add: logging_defs svn_fs_fs__id_is_txn_def)
  have m: "predecessor_count (final_root 7) \<noteq> - 1
           \<and> predecessor_count (final_root 7) - predecessor_count head_root \<noteq> 1"
    by (simp add: final_root_def txn_root_def head_root_def)
  have c: "current_rev head5 + 1 = 6" by (simp add: head5_def)
  from commit_body_validates_root [OF h1 h2 h3 h4 h5 h6 h7 h8 h9 h10 h11 h12] m c
  show ?thesis by simp
qed

text \<open>
  The claim C9 as it was stated fails for a root node revision whose predecessor
  count is \<open>-1\<close>: the difference to the head root's count 5 is not 1, yet the
  validation passes and the commit publishes revision 6.
\<close>

theorem commit_body_validates_root_counterexample:
  "predecessor_count (final_root (- 1)) - predecessor_count head_root \<noteq> 6 - 5
   \<and> validate_root_noderev (logging_env (- 1)) (final_root (- 1)) 6 [] =
       (Inr (), [''revision_root'', ''node_id'', ''get_node_revision''])
   \<and> fst (commit_body (logging_env (- 1)) (commit_of 5) head5) = Inr ()
   \<and> current_rev (snd (commit_body (logging_env (- 1)) (commit_of 5) head5)) = 6"
  by (simp add: commit_body_def SVN_ERR_def on_disk_def svn_fs_fs__youngest_rev_def Let_def
        start_ids_def svn_return_def svn_fail_def write_final_rev_def validate_root_noderev_def
        write_final_current_def svn_fs_fs__write_current_def svn_fs_fs__id_is_txn_def
        svn_fs_fs__id_txn_create_def logging_defs final_root_def)

section \<open>Theorems: the proto-rev lock\<close>

lemma find_shared_txn_Some:
  "find_shared_txn ts tid = Some i \<Longrightarrow> i < length ts \<and> shared_txn_id (ts ! i) = tid"
  by (induction ts arbitrary: i) (auto split: if_splits option.splits)

lemma find_shared_txn_update:
  "find_shared_txn (ts[i := (ts ! i)\<lparr>being_written := b\<rparr>]) tid = find_shared_txn ts tid"
proof (induction ts arbitrary: i)
  case Nil
  then show ?case by simp
next
  case (Cons t ts)
  then show ?case by (cases i) auto
qed

lemma txn_being_written_set:
  "find_shared_txn (txns ffsd) tid = Some i \<Longrightarrow>
     txn_being_written (set_being_written ffsd i b) tid = b"
  using find_shared_txn_Some [of "txns ffsd" tid i]
  by (simp add: txn_being_written_def set_being_written_def find_shared_txn_update)

lemma get_shared_txn_create:
  "\<exists>i ffsd1. get_shared_txn ffsd tid True = (Some i, ffsd1)
      \<and> find_shared_txn (txns ffsd1) tid = Some i
      \<and> being_written (txns ffsd1 ! i) = txn_being_written ffsd tid"
  by (auto simp: get_shared_txn_def txn_being_written_def split: option.splits)

lemma get_shared_txn_found:
  "find_shared_txn (txns ffsd) tid = Some i \<Longrightarrow> get_shared_txn ffsd tid c = (Some i, ffsd)"
  by (simp add: get_shared_txn_def)

text \<open>
  Claim C3.  Provided the errors of opening the lock file and of opening and seeking
  the proto-rev file are not themselves \<^verbatim>\<open>SVN_ERR_FS_REP_BEING_WRITTEN\<close>,
  \<^verbatim>\<open>get_writable_proto_rev_body\<close> fails with that error exactly when the registry
  has the \<^verbatim>\<open>being_written\<close> flag of the transaction set, or the lock file could be
  opened and the non-blocking exclusive lock answered \<^verbatim>\<open>EAGAIN\<close>.  When it
  succeeds, the flag is set in the registry it leaves, the flag was clear and the lock
  was obtained, and the handle returned is on the bytes of the proto-rev file with
  its position at their end.
\<close>

theorem get_writable_proto_rev_body_being_written:
  assumes "lockfile_open os \<noteq> Some SVN_ERR_FS_REP_BEING_WRITTEN"
      and "proto_rev_open os \<noteq> Some SVN_ERR_FS_REP_BEING_WRITTEN"
      and "proto_rev_seek os \<noteq> Some SVN_ERR_FS_REP_BEING_WRITTEN"
  shows "(fst (get_writable_proto_rev_body os ffsd tid) = Inl SVN_ERR_FS_REP_BEING_WRITTEN)
           = (txn_being_written ffsd tid
              \<or> (lockfile_open os = None \<and> lockfile_lock os = APR_EAGAIN))
         \<and> (case get_writable_proto_rev_body os ffsd tid of
              (Inl err, ffsd') \<Rightarrow> True
            | (Inr (f, cookie), ffsd') \<Rightarrow>
                txn_being_written ffsd' tid
                \<and> contents f = proto_rev_bytes os
                \<and> filepos f = length (contents f)
                \<and> \<not> txn_being_written ffsd tid
                \<and> lockfile_lock os = APR_SUCCESS)"
proof -
  obtain i ffsd1 where g: "get_shared_txn ffsd tid True = (Some i, ffsd1)"
    and f: "find_shared_txn (txns ffsd1) tid = Some i"
    and w: "being_written (txns ffsd1 ! i) = txn_being_written ffsd tid"
    using get_shared_txn_create by blast
  note s = txn_being_written_set [OF f]
  have u: "get_shared_txn (set_being_written ffsd1 i True) tid False
             = (Some i, set_being_written ffsd1 i True)"
    by (rule get_shared_txn_found) (simp add: set_being_written_def find_shared_txn_update f)
  show ?thesis
    using assms
    by (auto simp: get_writable_proto_rev_body_def g w s u Let_def file_seek_end_def
        svn_error_compose_create_def unlock_proto_rev_body_def
        split: option.splits if_splits prod.splits)
qed

theorem get_writable_proto_rev_body_being_written_witness:
  "fst (get_writable_proto_rev_body (quiet_os APR_SUCCESS) (registry True) ''5-1'')
     = Inl SVN_ERR_FS_REP_BEING_WRITTEN
   \<and> fst (get_writable_proto_rev_body (quiet_os APR_EAGAIN) (registry False) ''5-1'')
     = Inl SVN_ERR_FS_REP_BEING_WRITTEN
   \<and> fst (get_writable_proto_rev_body (quiet_os (APR_FAILURE 13)) (registry False) ''5-1'')
     \<noteq> Inl SVN_ERR_FS_REP_BEING_WRITTEN
   \<and> get_writable_proto_rev_body (quiet_os APR_SUCCESS) (registry False) ''5-1''
     = (Inr (\<lparr>contents = ''head'', filepos = 4\<rparr>, Some ''5-1''), registry True)"
proof -
  have o: "lockfile_open (quiet_os st) \<noteq> Some SVN_ERR_FS_REP_BEING_WRITTEN"
    and p: "proto_rev_open (quiet_os st) \<noteq> Some SVN_ERR_FS_REP_BEING_WRITTEN"
    and q: "proto_rev_seek (quiet_os st) \<noteq> Some SVN_ERR_FS_REP_BEING_WRITTEN" for st
    by (simp_all add: quiet_os_def)
  note t = get_writable_proto_rev_body_being_written [OF o p q]
  have r: "get_writable_proto_rev_body (quiet_os APR_SUCCESS) (registry False) ''5-1''
     = (Inr (\<lparr>contents = ''head'', filepos = 4\<rparr>, Some ''5-1''), registry True)"
    by (simp add: get_writable_proto_rev_body_def get_shared_txn_def quiet_os_def registry_def
        set_being_written_def file_seek_end_def)
  from t [of APR_SUCCESS "registry True" "''5-1''"] t [of APR_EAGAIN "registry False" "''5-1''"]
    t [of "APR_FAILURE 13" "registry False" "''5-1''"] r
  show ?thesis
    by (simp add: txn_being_written_def registry_def quiet_os_def)
qed

section \<open>Theorems: writing representations\<close>

lemma foldl_write_hash_handler:
  "filepos (stream whb) = length (contents (stream whb)) \<Longrightarrow>
   foldl write_hash_handler whb hash =
     \<lparr>stream = \<lparr>contents = contents (stream whb) @ concat hash,
                filepos = length (contents (stream whb)) + length (concat hash)\<rparr>,
      whb_size = whb_size whb + int (length (concat hash)),
      md5_ctx = md5_ctx whb @ concat hash,
      sha1_ctx = sha1_ctx whb @ concat hash\<rparr>"
proof (induction hash arbitrary: whb)
  case Nil
  then show ?case by simp
next
  case (Cons x xs)
  have "filepos (stream (write_hash_handler whb x)) = length (contents (stream (write_hash_handler whb x)))"
    using Cons.prems by (simp add: write_hash_handler_def file_write_def)
  from Cons.IH [OF this] Cons.prems show ?case
    by (simp add: write_hash_handler_def file_write_def)
qed

lemma write_hash_rep_cases:
  assumes "write_hash_rep fs io rep f hash reps_hash = (None, rep', f')"
      and "filepos f = length (contents f)"
  shows "(\<exists>old. get_shared_rep fs
              (rep\<lparr>offset := int (length (contents f)),
                   md5_checksum := Some (md5_digest io (concat hash)),
                   sha1_checksum := Some (sha1_digest io (concat hash))\<rparr>) reps_hash = Inr (Some old)
            \<and> rep' = old \<and> contents f' = contents f)
       \<or> (get_shared_rep fs
              (rep\<lparr>offset := int (length (contents f)),
                   md5_checksum := Some (md5_digest io (concat hash)),
                   sha1_checksum := Some (sha1_digest io (concat hash))\<rparr>) reps_hash = Inr None
            \<and> rep' = rep\<lparr>offset := int (length (contents f)),
                   md5_checksum := Some (md5_digest io (concat hash)),
                   sha1_checksum := Some (sha1_digest io (concat hash)),
                   size' := int (length (concat hash)), expanded_size := 0\<rparr>
            \<and> contents f' = contents f @ ''PLAIN\<newline>'' @ concat hash @ ''ENDREP\<newline>'')"
proof -
  let ?whb1 = "\<lparr>stream = file_write f ''PLAIN\<newline>'', whb_size = 0, md5_ctx = [], sha1_ctx = []\<rparr>"
  have e: "filepos (stream ?whb1) = length (contents (stream ?whb1))"
    using assms(2) by (simp add: file_write_def)
  note w = foldl_write_hash_handler [OF e, of hash]
  show ?thesis
    using assms
    apply (simp add: write_hash_rep_def Let_def w svn_fs_fs__get_file_offset_def
        split: option.splits sum.splits)
     apply (auto simp: file_write_def svn_io_file_trunc_def)
    done
qed

lemma rep_write_contents_close_cases:
  assumes "rep_write_contents_close fs io b = (None, b')"
      and "get_new_txn_node_id io = Inr unique_suffix"
      and "filepos (file' b) = length (contents (file' b))"
      and "0 \<le> rep_offset b" and "nat (rep_offset b) \<le> length (contents (file' b))"
  shows "(\<exists>old. get_shared_rep fs (written_rep io (close_delta_stream b) unique_suffix) None
                  = Inr (Some old)
            \<and> data_rep (noderev b') = Some old
            \<and> contents (file' b') = take (nat (rep_offset b)) (contents (file' b)))
       \<or> (get_shared_rep fs (written_rep io (close_delta_stream b) unique_suffix) None = Inr None
            \<and> data_rep (noderev b') = Some (written_rep io (close_delta_stream b) unique_suffix)
            \<and> contents (file' b')
                = contents (file' b) @ (case delta_stream b of None \<Rightarrow> [] | Some pending \<Rightarrow> pending)
                  @ ''ENDREP\<newline>'')"
proof -
  let ?b1 = "close_delta_stream b"
  have c: "contents (file' ?b1)
      = contents (file' b) @ (case delta_stream b of None \<Rightarrow> [] | Some pending \<Rightarrow> pending)"
    and p: "filepos (file' ?b1) = length (contents (file' ?b1))"
    and r: "rep_offset ?b1 = rep_offset b"
    using assms(3) by (auto simp: close_delta_stream_def file_write_def split: option.splits)
  have t: "contents (svn_io_file_trunc (file' ?b1) (rep_offset b))
             = take (nat (rep_offset b)) (contents (file' b))"
    using assms(4,5) by (simp add: svn_io_file_trunc_def c)
  have e: "contents (file_write (file' ?b1) ''ENDREP\<newline>'')
             = contents (file' ?b1) @ ''ENDREP\<newline>''"
    using p by (simp add: file_write_def)
  show ?thesis
    using assms(1,2)
    apply (simp add: rep_write_contents_close_def Let_def svn_fs_fs__put_node_revision_def r
        split: option.splits sum.splits if_splits prod.splits)
     apply (auto simp: t e c)
    done
qed

text \<open>
  Claim C4.  Let \<^verbatim>\<open>rep_write_contents_close\<close> succeed on a writer whose file
  handle is at the end of the file and whose \<^verbatim>\<open>rep_offset\<close> lies within it.
  Either rep-sharing found an existing representation: then the file is cut back to
  its first \<^verbatim>\<open>rep_offset\<close> bytes and the node revision's data representation is
  the existing one.  Or it found none: then the file is the old one followed by the
  pending svndiff bytes and \<^verbatim>\<open>ENDREP\<close> with a newline, and the data
  representation is the one just written.  Likewise when \<^verbatim>\<open>write_hash_rep\<close>
  succeeds on a file handle at the end of the file: either an existing representation
  was found, it is the one returned and the file is as before the call; or none was
  found and the file has gained \<^verbatim>\<open>PLAIN\<close>, the serialised hash and \<^verbatim>\<open>ENDREP\<close>.
\<close>

theorem rep_sharing_truncate_or_endrep:
  assumes "rep_write_contents_close fs io b = (None, b')"
      and "get_new_txn_node_id io = Inr unique_suffix"
      and "filepos (file' b) = length (contents (file' b))"
      and "0 \<le> rep_offset b" and "nat (rep_offset b) \<le> length (contents (file' b))"
      and "write_hash_rep fs2 io2 rep f hash reps_hash = (None, rep', f')"
      and "filepos f = length (contents f)"
  shows "((\<exists>old. get_shared_rep fs (written_rep io (close_delta_stream b) unique_suffix) None
                  = Inr (Some old)
            \<and> data_rep (noderev b') = Some old
            \<and> contents (file' b') = take (nat (rep_offset b)) (contents (file' b)))
       \<or> (get_shared_rep fs (written_rep io (close_delta_stream b) unique_suffix) None = Inr None
            \<and> data_rep (noderev b') = Some (written_rep io (close_delta_stream b) unique_suffix)
            \<and> contents (file' b')
                = contents (file' b) @ (case delta_stream b of None \<Rightarrow> [] | Some pending \<Rightarrow> pending)
                  @ ''ENDREP\<newline>''))
     \<and> ((\<exists>old. get_shared_rep fs2
              (rep\<lparr>offset := int (length (contents f)),
                   md5_checksum := Some (md5_digest io2 (concat hash)),
                   sha1_checksum := Some (sha1_digest io2 (concat hash))\<rparr>) reps_hash = Inr (Some old)
            \<and> rep' = old \<and> contents f' = contents f)
       \<or> (get_shared_rep fs2
              (rep\<lparr>offset := int (length (contents f)),
                   md5_checksum := Some (md5_digest io2 (concat hash)),
                   sha1_checksum := Some (sha1_digest io2 (concat hash))\<rparr>) reps_hash = Inr None
            \<and> rep' = rep\<lparr>offset := int (length (contents f)),
                   md5_checksum := Some (md5_digest io2 (concat hash)),
                   sha1_checksum := Some (sha1_digest io2 (concat hash)),
                   size' := int (length (concat hash)), expanded_size := 0\<rparr>
            \<and> contents f' = contents f @ ''PLAIN\<newline>'' @ concat hash @ ''ENDREP\<newline>''))"
  using rep_write_contents_close_cases [OF assms(1-5)] write_hash_rep_cases [OF assms(6,7)]
  by (rule conjI)

theorem rep_sharing_truncate_or_endrep_witness:
  "data_rep (noderev (snd (rep_write_contents_close sharing_fs quiet_io hello_baton)))
     = Some (cached_rep\<lparr>md5_checksum := Some ''md5:hello'', uniquifier := Some ''5-1/_7''\<rparr>)
   \<and> contents (file' (snd (rep_write_contents_close sharing_fs quiet_io hello_baton))) = ''head''
   \<and> contents (snd (snd (write_hash_rep no_sharing_fs quiet_io (rep_pcalloc\<lparr>revision := 6\<rparr>)
        \<lparr>contents = ''head'', filepos = 4\<rparr> dir_hash None)))
     = ''headPLAIN\<newline>K 1\<newline>a\<newline>V 17\<newline>file 3.0.r2/0\<newline>END\<newline>ENDREP\<newline>''"
proof -
  obtain b' where a: "rep_write_contents_close sharing_fs quiet_io hello_baton = (None, b')"
    by (simp add: rep_write_contents_close_def Let_def close_delta_stream_def written_rep_def
        get_shared_rep_def svn_fs_fs__put_node_revision_def sharing_fs_def quiet_io_def
        hello_baton_def file_node_def txn_node_def svn_fs_fs__id_txn_create_def
        svn_fs_fs__id_is_txn_def svn_fs_fs__id_txn_id_def rep_pcalloc_def printf_s_def
        is_txn_rep_def cached_rep_def)
  have b: "get_new_txn_node_id quiet_io = Inr ''_7''" by (simp add: quiet_io_def)
  have c: "filepos (file' hello_baton) = length (contents (file' hello_baton))"
    and d: "0 \<le> rep_offset hello_baton"
    and e: "nat (rep_offset hello_baton) \<le> length (contents (file' hello_baton))"
    by (simp_all add: hello_baton_def)
  obtain rep' f' where f: "write_hash_rep no_sharing_fs quiet_io (rep_pcalloc\<lparr>revision := 6\<rparr>)
        \<lparr>contents = ''head'', filepos = 4\<rparr> dir_hash None = (None, rep', f')"
    by (simp add: write_hash_rep_def Let_def get_shared_rep_def no_sharing_fs_def sharing_fs_def
        quiet_io_def)
  have g: "filepos \<lparr>contents = ''head'', filepos = 4\<rparr> = length (contents \<lparr>contents = ''head'', filepos = 4\<rparr>)"
    by simp
  have s: "get_shared_rep sharing_fs (written_rep quiet_io (close_delta_stream hello_baton) ''_7'') None
      = Inr (Some (cached_rep\<lparr>md5_checksum := Some ''md5:hello'', uniquifier := Some ''5-1/_7''\<rparr>))"
    by (simp add: close_delta_stream_def written_rep_def
        get_shared_rep_def sharing_fs_def quiet_io_def
        hello_baton_def file_node_def txn_node_def svn_fs_fs__id_txn_create_def
        svn_fs_fs__id_txn_id_def rep_pcalloc_def printf_s_def
        is_txn_rep_def cached_rep_def)
  have n: "get_shared_rep no_sharing_fs r None = Inr None" for r
    by (simp add: get_shared_rep_def no_sharing_fs_def)
  from rep_sharing_truncate_or_endrep [OF a b c d e f g] a f s n
  show ?thesis
    by (simp add: hello_baton_def dir_hash_def)
qed

text \<open>
  Claim C10.  When \<^verbatim>\<open>write_hash_rep\<close> succeeds on a file handle at the end of the
  file and no shared representation is found for what it wrote, the representation
  it returns has \<^verbatim>\<open>expanded_size\<close> 0, whatever it held before, and its
  \<^verbatim>\<open>size\<close> is the number of bytes of the serialised hash, which stand in the file
  between the \<^verbatim>\<open>PLAIN\<close> header and the \<^verbatim>\<open>ENDREP\<close> trailer.
\<close>

theorem write_hash_rep_plain_expanded_size:
  assumes "write_hash_rep fs io rep f hash reps_hash = (None, rep', f')"
      and "filepos f = length (contents f)"
      and "get_shared_rep fs
              (rep\<lparr>offset := int (length (contents f)),
                   md5_checksum := Some (md5_digest io (concat hash)),
                   sha1_checksum := Some (sha1_digest io (concat hash))\<rparr>) reps_hash = Inr None"
  shows "expanded_size rep' = 0
         \<and> size' rep' = int (length (concat hash))
         \<and> contents f' = contents f @ ''PLAIN\<newline>'' @ concat hash @ ''ENDREP\<newline>''"
  using write_hash_rep_cases [OF assms(1,2)] assms(3) by auto

theorem write_hash_rep_plain_expanded_size_witness:
  "fst (write_hash_rep no_sharing_fs quiet_io (rep_pcalloc\<lparr>revision := 6, expanded_size := 99\<rparr>)
         \<lparr>contents = ''head'', filepos = 4\<rparr> dir_hash None) = None
   \<and> expanded_size (fst (snd (write_hash_rep no_sharing_fs quiet_io
         (rep_pcalloc\<lparr>revision := 6, expanded_size := 99\<rparr>)
         \<lparr>contents = ''head'', filepos = 4\<rparr> dir_hash None))) = 0
   \<and> size' (fst (snd (write_hash_rep no_sharing_fs quiet_io
         (rep_pcalloc\<lparr>revision := 6, expanded_size := 99\<rparr>)
         \<lparr>contents = ''head'', filepos = 4\<rparr> dir_hash None))) = 29
   \<and> contents (snd (snd (write_hash_rep no_sharing_fs quiet_io
         (rep_pcalloc\<lparr>revision := 6, expanded_size := 99\<rparr>)
         \<lparr>contents = ''head'', filepos = 4\<rparr> dir_hash None)))
     = ''headPLAIN\<newline>K 1\<newline>a\<newline>V 17\<newline>file 3.0.r2/0\<newline>END\<newline>ENDREP\<newline>''"
proof -
  obtain rep' f' where run: "write_hash_rep no_sharing_fs quiet_io
        (rep_pcalloc\<lparr>revision := 6, expanded_size := 99\<rparr>)
        \<lparr>contents = ''head'', filepos = 4\<rparr> dir_hash None = (None, rep', f')"
    by (simp add: write_hash_rep_def Let_def get_shared_rep_def no_sharing_fs_def sharing_fs_def
        quiet_io_def)
  have g: "filepos \<lparr>contents = ''head'', filepos = 4\<rparr>
             = length (contents \<lparr>contents = ''head'', filepos = 4\<rparr>)"
    by simp
  have n: "get_shared_rep no_sharing_fs r None = Inr None" for r
    by (simp add: get_shared_rep_def no_sharing_fs_def)
  from write_hash_rep_plain_expanded_size [OF run g n] run show ?thesis
    by (simp add: dir_hash_def)
qed

section \<open>Theorems: the delta base\<close>

text \<open>
  The loop of \<^verbatim>\<open>choose_delta_base\<close> walks back as many predecessors as the
  predecessor count exceeds \<^verbatim>\<open>count\<close>; it ends on the last node revision read, and
  its flag is set when one of the node revisions read holds a shared representation.
\<close>

lemma walk_predecessors_eq:
  "walk_predecessors fs props pc count base seen =
     (case predecessor_walk fs (nat (pc - count)) base of
        Inl err \<Rightarrow> Inl err
      | Inr nodes \<Rightarrow>
          Inr (last (base # nodes), seen \<or> (\<exists>n\<in>set nodes. shared_rep_seen props n)))"
proof (induction fs props pc count base seen rule: walk_predecessors.induct)
  case (1 fs props pc count base seen)
  show ?case
  proof (cases "count < pc")
    case False
    then show ?thesis by (subst walk_predecessors.simps) simp
  next
    case True
    then have n: "nat (pc - count) = Suc (nat (pc - (count + 1)))" by simp
    show ?thesis
    proof (cases "get_node_revision fs (predecessor_id base)")
      case (Inl err)
      then show ?thesis using True
        by (subst walk_predecessors.simps) (simp add: n)
    next
      case (Inr base')
      have "walk_predecessors fs props pc count base seen =
          walk_predecessors fs props pc (count + 1) base'
            (if shared_rep_seen props base' then True else seen)"
        using True Inr by (subst walk_predecessors.simps) simp
      also have "\<dots> = (case predecessor_walk fs (nat (pc - (count + 1))) base' of
          Inl err \<Rightarrow> Inl err
        | Inr nodes \<Rightarrow>
            Inr (last (base' # nodes),
                 (if shared_rep_seen props base' then True else seen)
                 \<or> (\<exists>n\<in>set nodes. shared_rep_seen props n)))"
        by (rule "1.IH" [OF True Inr])
      also have "\<dots> = (case predecessor_walk fs (nat (pc - count)) base of
          Inl err \<Rightarrow> Inl err
        | Inr nodes \<Rightarrow>
            Inr (last (base # nodes), seen \<or> (\<exists>n\<in>set nodes. shared_rep_seen props n)))"
        unfolding n using Inr by (auto split: sum.splits)
      finally show ?thesis .
    qed
  qed
qed

lemma shared_rep_seen_iff:
  "shared_rep_seen props base =
     (case base_rep props base of
        None \<Rightarrow> False
      | Some r \<Rightarrow> revision r < svn_fs_fs__id_rev (noderev_id base))"
  by (simp add: shared_rep_seen_def base_rep_def split: option.splits)

text \<open>
  For a positive predecessor count the index of the base is a valid index below the
  count, so that the walk goes at least one step back.
\<close>

lemma skip_delta_count_bounds:
  assumes "0 < pc"
  shows "0 \<le> skip_delta_count fs pc \<and> skip_delta_count fs pc < pc"
proof -
  have "0 \<le> pc AND (pc - 1)" using assms by (simp add: AND_lower)
  moreover have "pc AND (pc - 1) \<le> pc - 1" using assms by (simp add: AND_upper2)
  ultimately show ?thesis using assms by (simp add: skip_delta_count_def)
qed

text \<open>
  Claim C5, as amended.  \<^verbatim>\<open>choose_delta_base\<close> returns no base for a predecessor
  count of 0.  Otherwise it computes \<^verbatim>\<open>count\<close> as the predecessor count with its
  lowest set bit cleared and \<^verbatim>\<open>walk\<close> as their difference, replaces \<^verbatim>\<open>count\<close>
  by the predecessor count minus one when \<^verbatim>\<open>walk\<close> is less than
  \<^verbatim>\<open>max_linear_deltification\<close>, and returns no base when \<^verbatim>\<open>walk\<close> exceeds
  \<^verbatim>\<open>max_deltification_walk\<close>.  Otherwise it follows \<^verbatim>\<open>predecessor_id\<close> back
  as many steps as the predecessor count exceeds \<^verbatim>\<open>count\<close>, fails if a node
  revision on the way cannot be read, and returns the property or data representation
  of the node reached, unless a shared representation was seen on the way and the
  chain of that representation is too long (or its length cannot be read).
\<close>

theorem choose_delta_base_skip_delta:
  "choose_delta_base fs nr props =
     (if predecessor_count nr = 0 then Inr None
      else
        let count0 = predecessor_count nr AND (predecessor_count nr - 1);
            walk = predecessor_count nr - count0;
            count = (if walk < max_linear_deltification fs
                     then predecessor_count nr - 1 else count0)
        in if walk > max_deltification_walk fs then Inr None
           else
             (case predecessor_walk fs (nat (predecessor_count nr - count)) nr of
                Inl err \<Rightarrow> Inl err
              | Inr nodes \<Rightarrow>
                  (case base_rep props (last (nr # nodes)) of
                     None \<Rightarrow> Inr None
                   | Some rep \<Rightarrow>
                       if \<exists>n\<in>set nodes. shared_rep_seen props n
                       then (case rep_chain_length fs rep of
                               Inl err \<Rightarrow> Inl err
                             | Inr chain_length \<Rightarrow>
                                 if chain_length \<ge> 2 * max_linear_deltification fs + 2
                                 then Inr None else Inr (Some rep))
                       else Inr (Some rep))))"
  by (simp add: choose_delta_base_def walk_predecessors_eq Let_def split: sum.splits)

theorem choose_delta_base_skip_delta_witness:
  "choose_delta_base (history_fs 1 0 1) (changed_node 6) False = Inr (Some (history_rep 5))
   \<and> predecessor_walk (history_fs 1 0 1) 2 (changed_node 6)
       = Inr [history_node 0 6, history_node 0 5]
   \<and> choose_delta_base (history_fs 16 0 1) (changed_node 6) False = Inr (Some (history_rep 6))
   \<and> choose_delta_base (history_fs 16 0 1) (changed_node 0) False = Inr None
   \<and> choose_delta_base (history_fs 16 0 1) (changed_node 2048) False = Inr None"
  unfolding choose_delta_base_skip_delta by code_simp

text \<open>
  The claim C5 as it was stated fails when the guard against shared representations
  applies: with \<^verbatim>\<open>max_linear_deltification\<close> 1 and six predecessors the walk
  goes two steps back to the node of revision 5, whose data representation exists,
  and yet no base is returned.
\<close>

theorem choose_delta_base_skip_delta_counterexample:
  "predecessor_count (changed_node 6) \<noteq> 0
   \<and> \<not> predecessor_count (changed_node 6) - (predecessor_count (changed_node 6)
           AND (predecessor_count (changed_node 6) - 1))
         > max_deltification_walk (history_fs 1 1 4)
   \<and> predecessor_walk (history_fs 1 1 4) 2 (changed_node 6)
       = Inr [history_node 1 6, history_node 1 5]
   \<and> data_rep (history_node 1 5) = Some (history_rep 4)
   \<and> choose_delta_base (history_fs 1 1 4) (changed_node 6) False = Inr None"
  by code_simp

text \<open>
  Claim C6, as amended.  A node revision read on the walk is flagged exactly when it
  has the representation asked for (property or data) and the revision of its id is
  greater than the revision of that representation.  When the walk succeeds and the
  node reached has the representation, the base is discarded exactly when some node
  revision on the walk was flagged and the chain length of the representation is at
  least \<open>2 * max_linear_deltification + 2\<close>; a chain length that cannot be read is an
  error, and it is only read when a node revision was flagged.
\<close>

theorem choose_delta_base_shared_rep_guard:
  assumes "predecessor_count nr \<noteq> 0"
      and "\<not> predecessor_count nr - (predecessor_count nr AND (predecessor_count nr - 1))
             > max_deltification_walk fs"
      and "predecessor_walk fs
             (nat (predecessor_count nr - skip_delta_count fs (predecessor_count nr))) nr
           = Inr nodes"
      and "base_rep props (last (nr # nodes)) = Some rep"
  shows "(\<forall>n. shared_rep_seen props n =
              (case base_rep props n of
                 None \<Rightarrow> False
               | Some r \<Rightarrow> revision r < svn_fs_fs__id_rev (noderev_id n)))
         \<and> choose_delta_base fs nr props =
             (if \<exists>n\<in>set nodes. shared_rep_seen props n
              then (case rep_chain_length fs rep of
                      Inl err \<Rightarrow> Inl err
                    | Inr chain_length \<Rightarrow>
                        if chain_length \<ge> 2 * max_linear_deltification fs + 2
                        then Inr None else Inr (Some rep))
              else Inr (Some rep))"
  using assms
  by (simp add: shared_rep_seen_iff choose_delta_base_def walk_predecessors_eq Let_def
      skip_delta_count_def)

theorem choose_delta_base_shared_rep_guard_witness:
  "shared_rep_seen False (history_node 2 6)
   \<and> choose_delta_base (history_fs 16 2 34) (changed_node 6) False = Inr None
   \<and> choose_delta_base (history_fs 16 2 33) (changed_node 6) False = Inr (Some (history_rep 4))"
proof -
  have p: "predecessor_count (changed_node 6) \<noteq> 0" by code_simp
  have m: "\<not> predecessor_count (changed_node 6)
               - (predecessor_count (changed_node 6) AND (predecessor_count (changed_node 6) - 1))
             > max_deltification_walk (history_fs 16 2 34)"
    and m': "\<not> predecessor_count (changed_node 6)
               - (predecessor_count (changed_node 6) AND (predecessor_count (changed_node 6) - 1))
             > max_deltification_walk (history_fs 16 2 33)"
    by code_simp+
  have w: "predecessor_walk (history_fs 16 2 34)
             (nat (predecessor_count (changed_node 6)
                   - skip_delta_count (history_fs 16 2 34) (predecessor_count (changed_node 6))))
             (changed_node 6) = Inr [history_node 2 6]"
    and w': "predecessor_walk (history_fs 16 2 33)
             (nat (predecessor_count (changed_node 6)
                   - skip_delta_count (history_fs 16 2 33) (predecessor_count (changed_node 6))))
             (changed_node 6) = Inr [history_node 2 6]"
    by code_simp+
  have d: "base_rep False (last (changed_node 6 # [history_node 2 6])) = Some (history_rep 4)"
    by code_simp
  have s: "shared_rep_seen False (history_node 2 6)" by code_simp
  have c: "rep_chain_length (history_fs 16 2 34) (history_rep 4) = Inr 34"
    and c': "rep_chain_length (history_fs 16 2 33) (history_rep 4) = Inr 33"
    and l: "max_linear_deltification (history_fs 16 2 34) = 16"
    and l': "max_linear_deltification (history_fs 16 2 33) = 16"
    by (simp_all add: history_fs_def)
  from choose_delta_base_shared_rep_guard [OF p m w d]
    choose_delta_base_shared_rep_guard [OF p m' w' d] s
  show ?thesis by (simp add: c c' l l')
qed

text \<open>
  The claim C6 as it was stated has the comparison the other way round.  The node of
  revision 6 whose data representation is of revision 4 is flagged, though the
  revision of the representation is not greater than that of the id, and a chain of
  length 34 discards the base; the node whose data representation is of revision 8 is
  not flagged, and the base is kept.
\<close>

theorem choose_delta_base_shared_rep_guard_counterexample:
  "data_rep (history_node 2 6) = Some (history_rep 4)
   \<and> \<not> revision (history_rep 4) > svn_fs_fs__id_rev (noderev_id (history_node 2 6))
   \<and> shared_rep_seen False (history_node 2 6)
   \<and> choose_delta_base (history_fs 16 2 34) (changed_node 6) False = Inr None
   \<and> data_rep (history_node (- 2) 6) = Some (history_rep 8)
   \<and> revision (history_rep 8) > svn_fs_fs__id_rev (noderev_id (history_node (- 2) 6))
   \<and> \<not> shared_rep_seen False (history_node (- 2) 6)
   \<and> choose_delta_base (history_fs 16 (- 2) 34) (changed_node 6) False
       = Inr (Some (history_rep 8))"
  by code_simp

section \<open>Theorems: folding the changes log\<close>

lemma svn_dirent_is_child_min_len:
  "svn_dirent_is_child p k \<Longrightarrow> min_child_len p \<le> length k"
  by (cases k) (auto simp: svn_dirent_is_child_def min_child_len_def last_conv_nth split: if_splits)

lemma remove_children_apply:
  "remove_children p changed k = (if svn_dirent_is_child p k then None else changed k)"
  using svn_dirent_is_child_min_len [of p k] by (simp add: remove_children_def)

lemma fold_change_other_path:
  "fold_change changed chg = Inr changed1 \<Longrightarrow> k \<noteq> path chg \<Longrightarrow> changed1 k = changed k"
  by (auto simp: fold_change_def Let_def split: option.splits if_splits svn_fs_path_change_kind.splits)

lemma process_changes_append:
  "process_changes changed (xs @ ys) =
     (case process_changes changed xs of Inl err \<Rightarrow> Inl err
      | Inr changed1 \<Rightarrow> process_changes changed1 ys)"
  by (induction xs arbitrary: changed) (auto split: sum.splits)

text \<open>
  Claim C7.  When the records \<open>pre\<close> of the log have been folded into \<open>changed\<close> and a
  delete or replace record \<open>chg\<close> for the path \<open>P\<close> folds into it, giving the map
  \<open>changed1\<close>, then \<^verbatim>\<open>process_changes\<close> succeeds on the log up to \<open>chg\<close>, and of
  the entries of \<open>changed1\<close> its map has lost those whose path is a strict child of
  \<open>P\<close> and kept all others as they were.  The path \<open>P\<close> is not a strict child of
  itself, so that its entry is among those kept; and folding the record changed the
  entry of no other path than \<open>P\<close>, so that the entries kept for the other paths are
  those from before the record.
\<close>

theorem process_changes_removes_children:
  assumes "process_changes changed0 pre = Inr changed"
      and "fold_change changed chg = Inr changed1"
      and "change_kind (info chg) = svn_fs_path_change_delete
           \<or> change_kind (info chg) = svn_fs_path_change_replace"
  shows "\<exists>changed'. process_changes changed0 (pre @ [chg]) = Inr changed'
           \<and> (\<forall>k. svn_dirent_is_child (path chg) k \<longrightarrow> changed' k = None)
           \<and> (\<forall>k. \<not> svn_dirent_is_child (path chg) k \<longrightarrow> changed' k = changed1 k)
           \<and> \<not> svn_dirent_is_child (path chg) (path chg)
           \<and> (\<forall>k. k \<noteq> path chg \<longrightarrow> changed1 k = changed k)"
proof -
  have "process_changes changed0 (pre @ [chg]) = Inr (remove_children (path chg) changed1)"
    using assms by (auto simp: process_changes_append)
  moreover have "remove_children (path chg) changed1 k =
      (if svn_dirent_is_child (path chg) k then None
       else if k = path chg then changed1 k else changed k)" for k
    using fold_change_other_path [OF assms(2), of k] by (simp add: remove_children_apply)
  moreover have "\<not> svn_dirent_is_child (path chg) (path chg)"
    by (simp add: svn_dirent_is_child_def)
  moreover have "changed1 k = changed k" if "k \<noteq> path chg" for k
    using fold_change_other_path [OF assms(2) that] .
  ultimately show ?thesis by simp
qed

theorem process_changes_removes_children_witness:
  "\<exists>changed'.
     process_changes Map.empty
       ([mk_change ''/a'' svn_fs_path_change_modify (Some (txn_node ''1'')),
         mk_change ''/a/b'' svn_fs_path_change_add (Some (txn_node ''2'')),
         mk_change ''/ab'' svn_fs_path_change_add (Some (txn_node ''3''))]
        @ [mk_change ''/a'' svn_fs_path_change_delete (Some (txn_node ''1''))]) = Inr changed'
     \<and> changed' ''/a/b'' = None
     \<and> changed' ''/ab'' = Some (info (mk_change ''/ab'' svn_fs_path_change_add (Some (txn_node ''3''))))
     \<and> changed' ''/a'' = Some (info (mk_change ''/a'' svn_fs_path_change_delete (Some (txn_node ''1''))))"
proof -
  let ?pre = "[mk_change ''/a'' svn_fs_path_change_modify (Some (txn_node ''1'')),
         mk_change ''/a/b'' svn_fs_path_change_add (Some (txn_node ''2'')),
         mk_change ''/ab'' svn_fs_path_change_add (Some (txn_node ''3''))]"
  let ?chg = "mk_change ''/a'' svn_fs_path_change_delete (Some (txn_node ''1''))"
  obtain changed where a: "process_changes Map.empty ?pre = Inr changed"
    and a1: "changed ''/a'' = Some (info (mk_change ''/a'' svn_fs_path_change_modify (Some (txn_node ''1''))))"
    and a2: "changed ''/ab'' = Some (info (mk_change ''/ab'' svn_fs_path_change_add (Some (txn_node ''3''))))"
    by (simp add: mk_change_def fold_change_def)
  obtain changed1 where b: "fold_change changed ?chg = Inr changed1"
    and b1: "changed1 ''/a'' = Some (info ?chg)"
    using a1 by (simp add: mk_change_def fold_change_def)
  have c: "change_kind (info ?chg) = svn_fs_path_change_delete \<or> change_kind (info ?chg) = svn_fs_path_change_replace"
    by (simp add: mk_change_def)
  from process_changes_removes_children [OF a b c] a2 b1 show ?thesis
    by (auto simp: mk_change_def svn_dirent_is_child_def)
qed

text \<open>
  A null node revision id is allowed in a reset record only, as the comment of the
  first sanity check has it.  The branch of \<^verbatim>\<open>fold_change\<close> for a path that has an
  entry in the map enforces this: a record with a null id and a kind other than reset
  is refused there with \<^verbatim>\<open>SVN_ERR_FS_CORRUPT\<close>, and \<^verbatim>\<open>process_changes\<close> and
  \<^verbatim>\<open>svn_fs_fs__txn_changes_fetch\<close> fail with it on a log that has the record at that
  place.
\<close>

lemma fold_change_missing_id_existing_entry:
  assumes "process_changes Map.empty pre = Inr changed"
      and "changed (path chg) \<noteq> None"
      and "node_rev_id (info chg) = None"
      and "change_kind (info chg) \<noteq> svn_fs_path_change_reset"
  shows "fold_change changed chg = Inl SVN_ERR_FS_CORRUPT
         \<and> process_changes Map.empty (pre @ chg # post) = Inl SVN_ERR_FS_CORRUPT
         \<and> svn_fs_fs__txn_changes_fetch None (Inr (pre @ chg # post)) file_close
             = Inl SVN_ERR_FS_CORRUPT"
proof -
  have f: "fold_change changed chg = Inl SVN_ERR_FS_CORRUPT"
    using assms(2-4) by (auto simp: fold_change_def Let_def)
  then have p: "process_changes Map.empty (pre @ chg # post) = Inl SVN_ERR_FS_CORRUPT"
    using assms(1) by (simp add: process_changes_append)
  show ?thesis using f p by (simp add: svn_fs_fs__txn_changes_fetch_def)
qed

lemma fold_change_missing_id_existing_entry_example:
  "fold_change [''/a'' \<mapsto> info (mk_change ''/a'' svn_fs_path_change_modify (Some (txn_node ''1'')))]
       (mk_change ''/a'' svn_fs_path_change_modify None) = Inl SVN_ERR_FS_CORRUPT
   \<and> process_changes Map.empty
       ([mk_change ''/a'' svn_fs_path_change_modify (Some (txn_node ''1''))]
        @ mk_change ''/a'' svn_fs_path_change_modify None # []) = Inl SVN_ERR_FS_CORRUPT
   \<and> svn_fs_fs__txn_changes_fetch None
        (Inr ([mk_change ''/a'' svn_fs_path_change_modify (Some (txn_node ''1''))]
              @ mk_change ''/a'' svn_fs_path_change_modify None # [])) None
       = Inl SVN_ERR_FS_CORRUPT"
proof -
  let ?c1 = "mk_change ''/a'' svn_fs_path_change_modify (Some (txn_node ''1''))"
  let ?chg = "mk_change ''/a'' svn_fs_path_change_modify None"
  have a: "process_changes Map.empty [?c1] = Inr [''/a'' \<mapsto> info ?c1]"
    by (simp add: mk_change_def fold_change_def)
  have b: "[''/a'' \<mapsto> info ?c1] (path ?chg) \<noteq> None" by (simp add: mk_change_def)
  have c: "node_rev_id (info ?chg) = None" by (simp add: mk_change_def)
  have d: "change_kind (info ?chg) \<noteq> svn_fs_path_change_reset" by (simp add: mk_change_def)
  from fold_change_missing_id_existing_entry [OF a b c d, of "[]" None] show ?thesis .
qed


end
